theory Spec2Isabelle
  imports Main "HOL-Library.Sublist"
begin

section \<open>Python strings and lists\<close>

text \<open>
  Python's \<open>str\<close> is modelled as \<open>string\<close>, one \<open>char\<close> per code point, for
  code points below 256 (Latin-1). The built-ins the program calls are written out for
  that range: \<open>splitlines\<close>, \<open>split\<close>, \<open>startswith\<close>, \<open>lower\<close>, \<open>join\<close>,
  \<open>int\<close> and \<open>str\<close> of an integer.
\<close>

definition is_linebreak :: "char \<Rightarrow> bool" where
  \<comment> \<open>the line boundaries of \<open>str.splitlines\<close>: LF, VT, FF, CR, FS, GS, RS, NEL\<close>
  "is_linebreak c = (of_char c \<in> {0x0A, 0x0B, 0x0C, 0x0D, 0x1C, 0x1D, 0x1E, 0x85 :: nat})"

definition is_space :: "char \<Rightarrow> bool" where
  \<comment> \<open>\<open>str.isspace\<close> on one character: TAB..CR, FS..US, space, NEL, NBSP\<close>
  "is_space c = (of_char c \<in> {0x09, 0x0A, 0x0B, 0x0C, 0x0D, 0x1C, 0x1D, 0x1E, 0x1F,
                              0x20, 0x85, 0xA0 :: nat})"

fun splitlines_from :: "string \<Rightarrow> string \<Rightarrow> string list" where
  "splitlines_from cur [] = (if cur = [] then [] else [cur])"
| "splitlines_from cur [c] = (if is_linebreak c then [cur] else [cur @ [c]])"
| "splitlines_from cur (c # d # cs) =
     (if c = CHR 0x0D \<and> d = CHR 0x0A then cur # splitlines_from [] cs
      else if is_linebreak c then cur # splitlines_from [] (d # cs)
      else splitlines_from (cur @ [c]) (d # cs))"

definition splitlines :: "string \<Rightarrow> string list" where
  \<comment> \<open>\<open>s.splitlines()\<close>: CR LF is one boundary, no empty last line after a final boundary\<close>
  "splitlines s = splitlines_from [] s"

fun split_from :: "string \<Rightarrow> string \<Rightarrow> string list" where
  "split_from cur [] = (if cur = [] then [] else [cur])"
| "split_from cur (c # cs) =
     (if is_space c then (if cur = [] then split_from [] cs else cur # split_from [] cs)
      else split_from (cur @ [c]) cs)"

definition py_split :: "string \<Rightarrow> string list" where
  \<comment> \<open>\<open>s.split()\<close>: the maximal runs of non-whitespace characters\<close>
  "py_split s = split_from [] s"

fun split_sep_from :: "char \<Rightarrow> string \<Rightarrow> string \<Rightarrow> string list" where
  "split_sep_from sep cur [] = [cur]"
| "split_sep_from sep cur (c # cs) =
     (if c = sep then cur # split_sep_from sep [] cs else split_sep_from sep (cur @ [c]) cs)"

definition split_sep :: "char \<Rightarrow> string \<Rightarrow> string list" where
  \<comment> \<open>\<open>s.split(sep)\<close> for a one-character separator: empty fields are kept\<close>
  "split_sep sep s = split_sep_from sep [] s"

definition startswith :: "string \<Rightarrow> string \<Rightarrow> bool" where
  \<comment> \<open>\<open>line.startswith(p)\<close>, the prefix first\<close>
  "startswith p line = (take (length p) line = p)"

fun join :: "string \<Rightarrow> string list \<Rightarrow> string" where
  "join sep [] = []"
| "join sep [x] = x"
| "join sep (x # y # ys) = x @ sep @ join sep (y # ys)"

definition lower_char :: "char \<Rightarrow> char" where
  \<comment> \<open>\<open>str.lower\<close> on one Latin-1 character: A..Z and the accented capitals but the
      multiplication sign\<close>
  "lower_char c =
     (let n = (of_char c :: nat)
      in if (65 \<le> n \<and> n \<le> 90) \<or> (192 \<le> n \<and> n \<le> 222 \<and> n \<noteq> 215)
         then char_of (n + 32) else c)"

definition lower :: "string \<Rightarrow> string" where
  "lower s = map lower_char s"

definition is_digit :: "char \<Rightarrow> bool" where
  "is_digit c = (48 \<le> (of_char c :: nat) \<and> (of_char c :: nat) \<le> 57)"

definition digit_val :: "char \<Rightarrow> nat" where
  "digit_val c = of_char c - 48"

fun parse_digits :: "nat \<Rightarrow> string \<Rightarrow> nat option" where
  "parse_digits acc [] = Some acc"
| "parse_digits acc [c] = (if is_digit c then Some (10 * acc + digit_val c) else None)"
| "parse_digits acc (c # d # cs) =
     (if is_digit c then parse_digits (10 * acc + digit_val c) (d # cs)
      else if c = CHR ''_'' \<and> is_digit d then parse_digits acc (d # cs)
      else None)"

definition parse_unsigned :: "string \<Rightarrow> nat option" where
  \<comment> \<open>digits, with single underscores allowed between two digits\<close>
  "parse_unsigned s =
     (case s of [] \<Rightarrow> None
      | c # cs \<Rightarrow> if is_digit c then parse_digits (digit_val c) cs else None)"

definition is_int_space :: "char \<Rightarrow> bool" where
  \<comment> \<open>what \<open>int()\<close> skips around a literal: TAB..CR, space, NEL, NBSP; not FS..US\<close>
  "is_int_space c = (of_char c \<in> {0x09, 0x0A, 0x0B, 0x0C, 0x0D, 0x20, 0x85, 0xA0 :: nat})"

definition strip_int :: "string \<Rightarrow> string" where
  "strip_int s = rev (dropWhile is_int_space (rev (dropWhile is_int_space s)))"

definition int_max_str_digits :: nat where
  \<comment> \<open>\<open>sys.int_info.default_max_str_digits\<close>, the interpreter's default since 3.11\<close>
  "int_max_str_digits = 4300"

definition py_int :: "string \<Rightarrow> int option" where
  \<comment> \<open>\<open>int(s)\<close> in base 10; \<open>None\<close> is the ValueError, also raised for a literal of more
      than \<open>int_max_str_digits\<close> digits (sign and underscores not counted)\<close>
  "py_int s =
     (case strip_int s of
        [] \<Rightarrow> None
      | c # cs \<Rightarrow>
          if int_max_str_digits < length (filter is_digit (c # cs)) then None
          else if c = CHR ''+'' then map_option int (parse_unsigned cs)
          else if c = CHR ''-'' then map_option (\<lambda>n. - int n) (parse_unsigned cs)
          else map_option int (parse_unsigned (c # cs)))"

definition norm_index :: "int \<Rightarrow> nat \<Rightarrow> nat" where
  \<comment> \<open>how a slice bound or an insert position is clamped into \<open>0..len\<close>: a negative index
      counts from the end\<close>
  "norm_index i len =
     (if i < 0 then nat (max 0 (i + int len)) else min (nat i) len)"

definition py_del_slice :: "int \<Rightarrow> int \<Rightarrow> 'a list \<Rightarrow> 'a list" where
  \<comment> \<open>\<open>del xs[a:b]\<close>\<close>
  "py_del_slice a b xs =
     (let lo = norm_index a (length xs); hi = norm_index b (length xs)
      in if lo < hi then take lo xs @ drop hi xs else xs)"

definition py_insert :: "int \<Rightarrow> 'a \<Rightarrow> 'a list \<Rightarrow> 'a list" where
  \<comment> \<open>\<open>xs.insert(i, x)\<close>: never raises, an index past the end appends\<close>
  "py_insert i x xs = (let k = norm_index i (length xs) in take k xs @ x # drop k xs)"

section \<open>PatchEngine: GitHubTool._apply_diff_to_content\<close>

datatype patch_error = ValueError string
  \<comment> \<open>raised by \<open>int()\<close>; the argument is the literal it rejected\<close>

record hunk =
  old_start :: int
  new_start :: int
  changes :: "string list"

definition range_start :: "string \<Rightarrow> string" where
  \<comment> \<open>\<open>rng.split(',')[0][1:]\<close>; \<open>split\<close> never returns an empty list\<close>
  "range_start rng = (case split_sep (CHR '','') rng of [] \<Rightarrow> [] | f # _ \<Rightarrow> drop 1 f)"

definition is_change_line :: "string \<Rightarrow> bool" where
  \<comment> \<open>\<open>line.startswith(('+', '-', ' '))\<close>\<close>
  "is_change_line line = (startswith ''+'' line \<or> startswith ''-'' line \<or> startswith '' '' line)"

definition opt_list :: "'a option \<Rightarrow> 'a list" where
  "opt_list x = (case x of None \<Rightarrow> [] | Some h \<Rightarrow> [h])"

text \<open>
  The scan over the patch lines. In the source \<open>current_hunk\<close> is the dictionary last
  appended to \<open>hunks\<close>, mutated in place; here the hunks already closed and the open one
  are kept apart, and \<open>hunks\<close> is the first followed by the second.
\<close>

fun collect_hunks :: "hunk list \<Rightarrow> hunk option \<Rightarrow> string list \<Rightarrow> patch_error + hunk list" where
  "collect_hunks closed cur [] = Inr (closed @ opt_list cur)"
| "collect_hunks closed cur (line # rest) =
     (if startswith ''@@'' line then
        (let parts = py_split line in
         if length parts \<ge> 2 then
           (let old_range = parts ! 1;
                new_range = (if length parts > 2 then parts ! 2 else old_range)
            in case py_int (range_start old_range) of
                 None \<Rightarrow> Inl (ValueError (range_start old_range))
               | Some os \<Rightarrow>
                  (case py_int (range_start new_range) of
                     None \<Rightarrow> Inl (ValueError (range_start new_range))
                   | Some ns \<Rightarrow>
                       collect_hunks (closed @ opt_list cur)
                         (Some \<lparr>old_start = os - 1, new_start = ns - 1, changes = []\<rparr>) rest))
         else collect_hunks closed cur rest)
      else (case cur of
              None \<Rightarrow> collect_hunks closed cur rest
            | Some h \<Rightarrow>
                if is_change_line line
                then collect_hunks closed (Some (h\<lparr>changes := changes h @ [line]\<rparr>)) rest
                else collect_hunks closed cur rest))"

fun insert_lines :: "int \<Rightarrow> string list \<Rightarrow> string list \<Rightarrow> string list" where
  \<comment> \<open>\<open>for i, new_line in enumerate(new_lines): result_lines.insert(old_start + i, new_line)\<close>\<close>
  "insert_lines pos [] result_lines = result_lines"
| "insert_lines pos (l # ls) result_lines = insert_lines (pos + 1) ls (py_insert pos l result_lines)"

definition lines_to_remove :: "hunk \<Rightarrow> nat" where
  "lines_to_remove h = length (filter (startswith ''-'') (changes h))"

definition new_lines :: "hunk \<Rightarrow> string list" where
  \<comment> \<open>the added and the context lines, without their tag\<close>
  "new_lines h =
     map (drop 1) (filter (\<lambda>l. startswith ''+'' l \<or> startswith '' '' l) (changes h))"

definition apply_hunk :: "hunk \<Rightarrow> string list \<Rightarrow> string list" where
  "apply_hunk h result_lines =
     (let r1 = (if lines_to_remove h > 0
                then py_del_slice (old_start h)
                       (min (old_start h + int (lines_to_remove h)) (int (length result_lines)))
                       result_lines
                else result_lines)
      in insert_lines (old_start h) (new_lines h) r1)"

definition apply_hunks :: "hunk list \<Rightarrow> string list \<Rightarrow> string list" where
  \<comment> \<open>\<open>for hunk in reversed(hunks)\<close>\<close>
  "apply_hunks hunks original_lines = foldl (\<lambda>ls h. apply_hunk h ls) original_lines (rev hunks)"

definition apply_diff_to_content :: "string \<Rightarrow> string \<Rightarrow> patch_error + string" where
  "apply_diff_to_content original diff =
     (if diff = [] \<or> original = [] then Inr original
      else case collect_hunks [] None (splitlines diff) of
             Inl e \<Rightarrow> Inl e
           | Inr hunks \<Rightarrow>
               if hunks = [] then Inr original
               else (let result = join ''\<newline>'' (apply_hunks hunks (splitlines original))
                     in if result \<noteq> original then Inr result else Inr original))"

text \<open>
  A header line is harmless when it opens no hunk (fewer than two fields) or when
  \<open>int()\<close> accepts both of its start fields.
\<close>

definition header_ok :: "string \<Rightarrow> bool" where
  "header_ok line =
     (if startswith ''@@'' line \<and> length (py_split line) \<ge> 2
      then py_int (range_start (py_split line ! 1)) \<noteq> None
         \<and> py_int (range_start (if length (py_split line) > 2 then py_split line ! 2
                                 else py_split line ! 1)) \<noteq> None
      else True)"

text \<open>A literal of 4301 digits, one more than \<open>int()\<close> takes.\<close>

definition long_literal :: string where "long_literal = replicate 4301 (CHR ''0'')"

section \<open>Python values and exceptions; KeywordExtractor: MCPServer._extract_keywords\<close>

text \<open>
  The values \<open>json.loads\<close> produces, as far as the program looks at them. A number is
  an integer: the program only tests a number for truth and never computes with one.
  A dictionary is an association list read with \<open>map_of\<close>; its keys are distinct.
\<close>

datatype pyval =
    PNone
  | PBool bool
  | PInt int
  | PStr string
  | PList "pyval list"
  | PDict "(string \<times> pyval) list"

type_synonym pydict = "(string \<times> pyval) list"

text \<open>
  An exception is its class name and its text \<open>str(e)\<close>; a \<open>GithubException\<close> also
  has the HTTP status the handlers look at.
\<close>

datatype exc =
    PyError string string
  | GithubException int string

fun str_exc :: "exc \<Rightarrow> string" where
  "str_exc (PyError cls text) = text"
| "str_exc (GithubException status text) = text"

fun truthy :: "pyval \<Rightarrow> bool" where
  "truthy PNone = False"
| "truthy (PBool b) = b"
| "truthy (PInt n) = (n \<noteq> 0)"
| "truthy (PStr s) = (s \<noteq> [])"
| "truthy (PList xs) = (xs \<noteq> [])"
| "truthy (PDict d) = (d \<noteq> [])"

fun type_name :: "pyval \<Rightarrow> string" where
  "type_name PNone = ''NoneType''"
| "type_name (PBool b) = ''bool''"
| "type_name (PInt n) = ''int''"
| "type_name (PStr s) = ''str''"
| "type_name (PList xs) = ''list''"
| "type_name (PDict d) = ''dict''"

definition dict_get :: "pydict \<Rightarrow> string \<Rightarrow> pyval" where
  "dict_get d k = (case map_of d k of None \<Rightarrow> PNone | Some v \<Rightarrow> v)"

definition dict_get_default :: "pydict \<Rightarrow> string \<Rightarrow> pyval \<Rightarrow> pyval" where
  "dict_get_default d k dflt = (case map_of d k of None \<Rightarrow> dflt | Some v \<Rightarrow> v)"

definition no_attribute :: "pyval \<Rightarrow> string \<Rightarrow> exc" where
  "no_attribute v attr =
     PyError ''AttributeError''
       ([CHR 0x27] @ type_name v @ [CHR 0x27] @ '' object has no attribute '' @ [CHR 0x27] @ attr
          @ [CHR 0x27])"

definition not_iterable :: "pyval \<Rightarrow> exc" where
  "not_iterable v =
     PyError ''TypeError'' ([CHR 0x27] @ type_name v @ [CHR 0x27] @ '' object is not iterable'')"

fun iterate :: "pyval \<Rightarrow> exc + pyval list" where
  "iterate (PList xs) = Inr xs"
| "iterate (PStr s) = Inr (map (\<lambda>c. PStr [c]) s)"
| "iterate (PDict d) = Inr (map (\<lambda>kv. PStr (fst kv)) d)"
| "iterate v = Inl (not_iterable v)"

text \<open>\<open>MCPServer._extract_keywords\<close>. The list \<open>keywords\<close> can hold any value until the
  last line calls \<open>k.lower()\<close> on each entry.\<close>

definition stopwords :: "string list" where
  "stopwords = [''the'', ''and'', ''for'', ''with'', ''from'', ''into'', ''when'', ''where'',
                ''this'', ''that'']"

definition title_keywords :: "pydict \<Rightarrow> exc + string list" where
  "title_keywords bug_report =
     (if truthy (dict_get bug_report ''title'') then
        (case dict_get bug_report ''title'' of
           PStr t \<Rightarrow> Inr (filter (\<lambda>w. length w > 3) (py_split t))
         | v \<Rightarrow> Inl (no_attribute v ''split''))
      else Inr [])"

definition component_entries :: "pydict \<Rightarrow> exc + pyval list" where
  "component_entries bug_report =
     (case dict_get_default bug_report ''affected_components'' (PList []) of
        PNone \<Rightarrow> Inr []
      | v \<Rightarrow> iterate v)"

fun keep_non_stopwords :: "pyval list \<Rightarrow> exc + string list" where
  "keep_non_stopwords [] = Inr []"
| "keep_non_stopwords (PStr s # ks) =
     (case keep_non_stopwords ks of
        Inl e \<Rightarrow> Inl e
      | Inr r \<Rightarrow> Inr (if lower s \<in> set stopwords then r else s # r))"
| "keep_non_stopwords (v # ks) = Inl (no_attribute v ''lower'')"

definition extract_keywords :: "pydict \<Rightarrow> exc + string list" where
  "extract_keywords bug_report =
     (case title_keywords bug_report of
        Inl e \<Rightarrow> Inl e
      | Inr tw \<Rightarrow>
         (case component_entries bug_report of
            Inl e \<Rightarrow> Inl e
          | Inr cs \<Rightarrow>
             (case keep_non_stopwords (map PStr tw @ cs) of
                Inl e \<Rightarrow> Inl e
              | Inr ks \<Rightarrow> Inr (take 5 ks))))"


text \<open>What the contract of the keyword extractor speaks of: the words of the title, the
  entries of the affected components, and the reports of the declared shape.\<close>

definition title_words :: "pydict \<Rightarrow> string list" where
  "title_words bug_report =
     (case dict_get bug_report ''title'' of PStr t \<Rightarrow> py_split t | _ \<Rightarrow> [])"

definition component_names :: "pydict \<Rightarrow> pyval list" where
  "component_names bug_report =
     (case component_entries bug_report of Inr cs \<Rightarrow> cs | Inl e \<Rightarrow> [])"

fun is_str :: "pyval \<Rightarrow> bool" where
  "is_str (PStr s) = True"
| "is_str v = False"

definition well_typed_report :: "pydict \<Rightarrow> bool" where
  "well_typed_report bug_report =
     ((case map_of bug_report ''title'' of
         None \<Rightarrow> True | Some PNone \<Rightarrow> True | Some (PStr t) \<Rightarrow> True | Some v \<Rightarrow> False)
      \<and> (case map_of bug_report ''affected_components'' of
            None \<Rightarrow> True | Some PNone \<Rightarrow> True | Some (PStr c) \<Rightarrow> True
          | Some (PList cs) \<Rightarrow> list_all is_str cs | Some v \<Rightarrow> False))"

section \<open>Collaborators; GitHubTool.create_fix_branch\<close>

text \<open>
  The collaborators. One run of the program calls each of them at most once, but for
  \<open>create_git_ref\<close>; what each call does in that run is a field of the environment:
  it raises (\<open>Inl\<close>) or returns. A statement about every environment is a statement
  about every behaviour of the language model, of Jira and of GitHub.
  \<^item> \<open>llm_report\<close>, \<open>llm_fix\<close>: \<open>_text(_chat(prompt))\<close> in \<open>parse_bug_report\<close> and in
    \<open>generate_code_fix\<close>; \<open>json_loads\<close>: \<open>json.loads\<close>, \<open>None\<close> when it raises.
  \<^item> \<open>find_similar_issues\<close>, \<open>get_relevant_files\<close>, \<open>apply_code_changes\<close>: what these
    methods return. Their bodies catch every exception and return a default, so they
    have no raising case.
  \<^item> \<open>analyze_codebase_context\<close>, \<open>create_ticket\<close>, \<open>create_pull_request\<close>: these
    methods raise or return.
  \<^item> \<open>jira_add_comment\<close>: the Jira client's call inside \<open>add_comment\<close>, \<open>None\<close> when it
    succeeds.
  \<^item> \<open>get_branch\<close>: \<open>repo.get_branch\<close>, returning the base commit;
    \<open>create_git_ref n ref\<close>: the \<open>n\<close>-th call of \<open>repo.create_git_ref\<close>, \<open>None\<close> when
    the ref is created.
  \<^item> \<open>time_now\<close>: \<open>int(time.time())\<close>; \<open>jira_base_url\<close>: \<open>Config.JIRA_BASE_URL\<close>.
\<close>

record env =
  llm_report :: "exc + string"
  llm_fix :: "exc + string"
  json_loads :: "string \<Rightarrow> pydict option"
  find_similar_issues :: "pyval list"
  get_relevant_files :: "(string \<times> string) list"
  analyze_codebase_context :: "exc + string"
  create_ticket :: "exc + string"
  jira_add_comment :: "exc option"
  get_branch :: "exc + string"
  create_git_ref :: "nat \<Rightarrow> string \<Rightarrow> exc option"
  time_now :: int
  apply_code_changes :: bool
  create_pull_request :: "exc + string"
  jira_base_url :: string

definition digit_char :: "nat \<Rightarrow> char" where
  \<comment> \<open>only applied to a digit, \<open>d < 10\<close>\<close>
  "digit_char d = ''0123456789'' ! d"

fun digits_of :: "nat \<Rightarrow> string" where
  "digits_of n =
     (if n < 10 then [digit_char n] else digits_of (n div 10) @ [digit_char (n mod 10)])"

declare digits_of.simps [simp del]

definition str_of_int :: "int \<Rightarrow> string" where
  \<comment> \<open>\<open>str(n)\<close> for an integer\<close>
  "str_of_int n = (if n < 0 then CHR ''-'' # digits_of (nat (- n)) else digits_of (nat n))"

definition is_branch_char :: "char \<Rightarrow> bool" where
  \<comment> \<open>the class \<open>[a-zA-Z0-9-]\<close>\<close>
  "is_branch_char c =
     (let n = (of_char c :: nat)
      in (97 \<le> n \<and> n \<le> 122) \<or> (65 \<le> n \<and> n \<le> 90) \<or> (48 \<le> n \<and> n \<le> 57) \<or> c = CHR ''-'')"

fun collapse_dashes :: "string \<Rightarrow> string" where
  \<comment> \<open>\<open>re.sub(r'-+', '-', s)\<close>\<close>
  "collapse_dashes [] = []"
| "collapse_dashes [c] = [c]"
| "collapse_dashes (c # d # cs) =
     (if c = CHR ''-'' \<and> d = CHR ''-'' then collapse_dashes (d # cs)
      else c # collapse_dashes (d # cs))"

definition clean_title :: "string \<Rightarrow> string" where
  "clean_title bug_title =
     take 30 (collapse_dashes
                (map (\<lambda>c. if is_branch_char c then c else CHR ''-'') (lower bug_title)))"

definition fix_branch_name :: "string \<Rightarrow> string \<Rightarrow> string" where
  "fix_branch_name issue_key bug_title =
     ''fix/'' @ lower issue_key @ ''-'' @ clean_title bug_title"

definition head_ref :: "string \<Rightarrow> string" where
  "head_ref branch_name = ''refs/heads/'' @ branch_name"

definition unbound_base_branch :: exc where
  \<comment> \<open>reading \<open>base_branch\<close> in the handler when \<open>get_branch\<close> itself raised\<close>
  "unbound_base_branch =
     PyError ''UnboundLocalError''
       (''cannot access local variable '' @ [CHR 0x27] @ ''base_branch'' @ [CHR 0x27]
          @ '' where it is not associated with a value'')"

text \<open>
  \<open>GitHubTool.create_fix_branch\<close>. The result is paired with the refs that
  \<open>create_git_ref\<close> was called with, in order. \<open>on_branch_error\<close> is the
  \<open>except GithubException\<close> clause; \<open>base\<close> is \<open>base_branch\<close>, bound or not.
\<close>

definition on_branch_error ::
  "env \<Rightarrow> string \<Rightarrow> string option \<Rightarrow> string list \<Rightarrow> exc \<Rightarrow> string list \<times> (exc + string)" where
  "on_branch_error env branch_name base calls e =
     (case e of
        GithubException status text \<Rightarrow>
          if status = 422 then
            (let retry_name = branch_name @ ''-'' @ str_of_int (time_now env)
             in case base of
                  None \<Rightarrow> (calls, Inl unbound_base_branch)
                | Some sha \<Rightarrow>
                    (case create_git_ref env (length calls) (head_ref retry_name) of
                       None \<Rightarrow> (calls @ [head_ref retry_name], Inr retry_name)
                     | Some e2 \<Rightarrow> (calls @ [head_ref retry_name], Inl e2)))
          else (calls, Inl e)
      | PyError cls text \<Rightarrow> (calls, Inl e))"

definition create_fix_branch :: "env \<Rightarrow> string \<Rightarrow> string \<Rightarrow> string list \<times> (exc + string)" where
  "create_fix_branch env issue_key bug_title =
     (let branch_name = fix_branch_name issue_key bug_title
      in case get_branch env of
           Inl e \<Rightarrow> on_branch_error env branch_name None [] e
         | Inr sha \<Rightarrow>
             (case create_git_ref env 0 (head_ref branch_name) of
                None \<Rightarrow> ([head_ref branch_name], Inr branch_name)
              | Some e \<Rightarrow> on_branch_error env branch_name (Some sha) [head_ref branch_name] e))"

fun is_conflict :: "exc \<Rightarrow> bool" where
  "is_conflict (GithubException status text) = (status = 422)"
| "is_conflict (PyError cls text) = False"

text \<open>An environment in which the first branch name is taken and the second is free.\<close>

definition busy_repo :: env where
  "busy_repo =
     \<lparr>llm_report = Inr [], llm_fix = Inr [], json_loads = (\<lambda>s. None),
      find_similar_issues = [], get_relevant_files = [],
      analyze_codebase_context = Inr [], create_ticket = Inr ''CCS-7'',
      jira_add_comment = None, get_branch = Inr ''9fceb02'',
      create_git_ref = (\<lambda>n ref. if n = 0 then Some (GithubException 422 ''Reference already exists'')
                                 else None),
      time_now = 1730000000, apply_code_changes = True,
      create_pull_request = Inr ''https://github.com/o/r/pull/1'', jira_base_url = ''jira.example''\<rparr>"

section \<open>AnthropicService and the orchestrator: MCPServer.process_slack_conversation\<close>

text \<open>
  \<open>AnthropicService.parse_bug_report\<close> and \<open>generate_code_fix\<close>. A message is a
  dictionary from strings to strings. \<open>llm_json\<close> is what both share: the call, the
  test for braces, the slice from the first \<open>{\<close> to the last \<open>}\<close> and \<open>json.loads\<close>,
  with \<open>None\<close> for every way of not producing a dictionary. The slice starts with a
  brace or is empty, so \<open>json.loads\<close> returns a dictionary or raises.
\<close>

type_synonym message = "(string \<times> string) list"

definition key_error :: "string \<Rightarrow> exc" where
  "key_error k = PyError ''KeyError'' ([CHR 0x27] @ k @ [CHR 0x27])"

definition format_message :: "message \<Rightarrow> exc + string" where
  "format_message msg =
     (case map_of msg ''user'' of
        None \<Rightarrow> Inl (key_error ''user'')
      | Some u \<Rightarrow>
          (case map_of msg ''text'' of
             None \<Rightarrow> Inl (key_error ''text'')
           | Some t \<Rightarrow> Inr (u @ '': '' @ t)))"

fun format_messages :: "message list \<Rightarrow> exc + string list" where
  "format_messages [] = Inr []"
| "format_messages (m # ms) =
     (case format_message m of
        Inl e \<Rightarrow> Inl e
      | Inr l \<Rightarrow> (case format_messages ms of Inl e \<Rightarrow> Inl e | Inr ls \<Rightarrow> Inr (l # ls)))"

definition format_conversation :: "message list \<Rightarrow> exc + string" where
  "format_conversation conversation =
     (case format_messages conversation of
        Inl e \<Rightarrow> Inl e
      | Inr ls \<Rightarrow> Inr (join ''\<newline>'' ls))"

definition json_slice :: "string \<Rightarrow> string" where
  \<comment> \<open>\<open>text[text.index('{'):text.rindex('}')+1]\<close>, for a text that has both braces\<close>
  "json_slice txt =
     (let i = length (takeWhile (\<lambda>c. c \<noteq> CHR ''{'') txt);
          j = length txt - Suc (length (takeWhile (\<lambda>c. c \<noteq> CHR ''}'') (rev txt)))
      in drop i (take (Suc j) txt))"

definition llm_json :: "env \<Rightarrow> exc + string \<Rightarrow> pydict option" where
  "llm_json env response =
     (case response of
        Inl e \<Rightarrow> None
      | Inr txt \<Rightarrow>
          if CHR ''{'' \<in> set txt \<and> CHR ''}'' \<in> set txt then json_loads env (json_slice txt)
          else None)"

definition fallback_report :: "string \<Rightarrow> pydict" where
  "fallback_report formatted_conv =
     [(''title'', PStr ''Bug Report from Slack''),
      (''description'', PStr (take 500 formatted_conv)),
      (''steps_to_reproduce'', PStr ''See conversation''),
      (''expected_behavior'', PStr ''System should work as intended''),
      (''actual_behavior'', PStr ''Issue reported in conversation''),
      (''severity'', PStr ''Medium''),
      (''affected_components'', PList []),
      (''additional_context'', PStr formatted_conv)]"

definition parse_bug_report :: "env \<Rightarrow> message list \<Rightarrow> exc + pydict" where
  "parse_bug_report env conversation =
     (case format_conversation conversation of
        Inl e \<Rightarrow> Inl e
      | Inr formatted_conv \<Rightarrow>
          (case llm_json env (llm_report env) of
             Some result \<Rightarrow> Inr result
           | None \<Rightarrow> Inr (fallback_report formatted_conv)))"

definition no_len :: "pyval \<Rightarrow> exc" where
  "no_len v =
     PyError ''TypeError''
       (''object of type '' @ [CHR 0x27] @ type_name v @ [CHR 0x27] @ '' has no len()'')"

fun py_len :: "pyval \<Rightarrow> exc + nat" where
  "py_len (PStr s) = Inr (length s)"
| "py_len (PList xs) = Inr (length xs)"
| "py_len (PDict d) = Inr (length d)"
| "py_len v = Inl (no_len v)"

definition fallback_fix :: pydict where
  "fallback_fix =
     [(''root_cause'', PStr ''Analysis needed''),
      (''fix_description'', PStr ''Manual review required''),
      (''code_changes'', PList []),
      (''testing_notes'', PStr ''Test thoroughly before deployment'')]"

definition generate_code_fix :: "env \<Rightarrow> pydict \<Rightarrow> string \<Rightarrow> pydict" where
  \<comment> \<open>the report and the context only go into the prompt\<close>
  "generate_code_fix env bug_report code_context =
     (case llm_json env (llm_fix env) of
        None \<Rightarrow> fallback_fix
      | Some result \<Rightarrow>
          (case py_len (dict_get_default result ''code_changes'' (PList [])) of
             Inl e \<Rightarrow> fallback_fix
           | Inr n \<Rightarrow> result))"

text \<open>
  The state \<open>MCPServer.process_slack_conversation\<close> works on: the table of workflows,
  and on Jira's side the comments \<open>add_comment\<close> was asked to post and those Jira took.
  The time stamps of a workflow record are left out.
\<close>

record workflow =
  status :: string
  steps :: "(string \<times> pydict) list"

record world =
  active_workflows :: "string \<Rightarrow> workflow option"
  jira_requests :: "(string \<times> string) list"
  jira_comments :: "(string \<times> string) list"
  git_ref_calls :: "string list"

definition update_workflow :: "string \<Rightarrow> string \<Rightarrow> pydict \<Rightarrow> world \<Rightarrow> world" where
  "update_workflow workflow_id st data w =
     (case active_workflows w workflow_id of
        None \<Rightarrow> w
      | Some entry \<Rightarrow>
          w\<lparr>active_workflows :=
              (active_workflows w)(workflow_id \<mapsto>
                 entry\<lparr>status := st, steps := steps entry @ [(st, data)]\<rparr>)\<rparr>)"

definition add_comment :: "env \<Rightarrow> string \<Rightarrow> string \<Rightarrow> world \<Rightarrow> world" where
  \<comment> \<open>\<open>JiraTool.add_comment\<close>: an exception of the Jira client is printed and dropped\<close>
  "add_comment env issue_key comment w =
     (let w1 = w\<lparr>jira_requests := jira_requests w @ [(issue_key, comment)]\<rparr>
      in case jira_add_comment env of
           None \<Rightarrow> w1\<lparr>jira_comments := jira_comments w1 @ [(issue_key, comment)]\<rparr>
         | Some e \<Rightarrow> w1)"

definition parse_failure :: exc where
  "parse_failure = PyError ''ValueError'' ''Failed to parse bug report from conversation''"

definition step1_parse ::
  "env \<Rightarrow> message list \<Rightarrow> string \<Rightarrow> world \<Rightarrow> world \<times> (exc + pydict)" where
  "step1_parse env conversation workflow_id w =
     (let w1 = w\<lparr>active_workflows :=
                   (active_workflows w)(workflow_id \<mapsto> \<lparr>status = ''started'', steps = []\<rparr>)\<rparr>;
          w2 = update_workflow workflow_id ''parsing_bug_report'' [] w1
      in case parse_bug_report env conversation of
           Inl e \<Rightarrow> (w2, Inl e)
         | Inr bug_report \<Rightarrow>
             if bug_report = [] \<or> \<not> truthy (dict_get bug_report ''title'')
             then (w2, Inl parse_failure)
             else (update_workflow workflow_id ''bug_report_parsed''
                     [(''bug_title'', dict_get bug_report ''title'')] w2,
                   Inr bug_report))"

definition search_keywords :: "pydict \<Rightarrow> exc + pyval list" where
  \<comment> \<open>the keywords, and again the affected components: a string is appended, a list extends\<close>
  "search_keywords bug_report =
     (case extract_keywords bug_report of
        Inl e \<Rightarrow> Inl e
      | Inr ks \<Rightarrow>
          (case dict_get bug_report ''affected_components'' of
             PStr c \<Rightarrow> Inr (map PStr ks @ [PStr c])
           | PList cs \<Rightarrow> Inr (map PStr ks @ cs)
           | v \<Rightarrow> Inr (map PStr ks)))"

definition file_context :: "string \<times> string \<Rightarrow> string" where
  "file_context f = ''=== COMPLETE FILE: '' @ fst f @ '' ===\<newline>'' @ snd f"

definition step3_context ::
  "env \<Rightarrow> pydict \<Rightarrow> string \<Rightarrow> world \<Rightarrow> world \<times> (exc + string)" where
  "step3_context env bug_report workflow_id w =
     (let w1 = update_workflow workflow_id ''analyzing_codebase'' [] w
      in case search_keywords bug_report of
           Inl e \<Rightarrow> (w1, Inl e)
         | Inr keywords \<Rightarrow>
             (let relevant_files = get_relevant_files env;
                  code_context = (case analyze_codebase_context env of Inl e \<Rightarrow> [] | Inr c \<Rightarrow> c)
              in if relevant_files \<noteq> []
                 then (w1, Inr (join ''\<newline>\<newline>'' (map file_context (take 3 relevant_files))))
                 else (w1, Inr code_context)))"

definition manual_fix :: pydict where
  "manual_fix =
     [(''root_cause'', PStr ''Manual analysis required''),
      (''fix_description'', PStr ''This issue requires manual investigation''),
      (''code_changes'', PList []),
      (''testing_notes'', PStr ''Manual testing required'')]"

definition step4_fix ::
  "env \<Rightarrow> pydict \<Rightarrow> string \<Rightarrow> string \<Rightarrow> world \<Rightarrow> world \<times> (exc + pydict)" where
  "step4_fix env bug_report code_context workflow_id w =
     (let w1 = update_workflow workflow_id ''generating_fix'' [] w;
          fix0 = generate_code_fix env bug_report code_context;
          fix = (if fix0 = [] then manual_fix else fix0)
      in case py_len (dict_get_default fix ''code_changes'' (PList [])) of
           Inl e \<Rightarrow> (w1, Inl e)
         | Inr n \<Rightarrow>
             (update_workflow workflow_id ''fix_generated''
                [(''files_to_change'', PInt (int n))] w1,
              Inr fix))"

definition step5_ticket :: "env \<Rightarrow> string \<Rightarrow> world \<Rightarrow> world \<times> (exc + string)" where
  "step5_ticket env workflow_id w =
     (let w1 = update_workflow workflow_id ''creating_jira_ticket'' [] w
      in case create_ticket env of
           Inl e \<Rightarrow> (w1, Inl e)
         | Inr issue_key \<Rightarrow>
             (update_workflow workflow_id ''jira_ticket_created''
                [(''issue_key'', PStr issue_key)] w1,
              Inr issue_key))"

definition advisory_comment :: string where
  "advisory_comment = ''No automated fix generated. Manual investigation required.''"

definition open_pull_request ::
  "env \<Rightarrow> string \<Rightarrow> string \<Rightarrow> world \<Rightarrow> world \<times> (exc + pyval)" where
  \<comment> \<open>after the branch exists: apply the changes, create the pull request, link it\<close>
  "open_pull_request env issue_key workflow_id w =
     (if apply_code_changes env then
        (case create_pull_request env of
           Inl e \<Rightarrow> (w, Inl e)
         | Inr pr_url \<Rightarrow>
             if pr_url \<noteq> [] then
               (update_workflow workflow_id ''pr_created'' [(''pr_url'', PStr pr_url)]
                  (add_comment env issue_key (''Pull Request created: '' @ pr_url) w),
                Inr (PStr pr_url))
             else (w, Inr (PStr pr_url)))
      else (w, Inr PNone))"

definition step6_pr ::
  "env \<Rightarrow> pydict \<Rightarrow> pydict \<Rightarrow> string \<Rightarrow> string \<Rightarrow> world \<Rightarrow> world \<times> (exc + pyval)" where
  "step6_pr env bug_report fix issue_key workflow_id w =
     (if fix \<noteq> [] \<and> truthy (dict_get fix ''code_changes'') then
        (let w1 = update_workflow workflow_id ''creating_pr'' [] w
         in case dict_get bug_report ''title'' of
              PStr title \<Rightarrow>
                (case create_fix_branch env issue_key title of
                   (calls, Inl e) \<Rightarrow> (w1\<lparr>git_ref_calls := git_ref_calls w1 @ calls\<rparr>, Inl e)
                 | (calls, Inr branch_name) \<Rightarrow>
                     open_pull_request env issue_key workflow_id
                       (w1\<lparr>git_ref_calls := git_ref_calls w1 @ calls\<rparr>))
            | v \<Rightarrow> (w1, Inl (no_attribute v ''lower'')))
      else (add_comment env issue_key advisory_comment w, Inr PNone))"

definition success_result :: "env \<Rightarrow> string \<Rightarrow> string \<Rightarrow> pyval \<Rightarrow> pydict \<Rightarrow> pydict" where
  "success_result env workflow_id issue_key pr_url bug_report =
     [(''success'', PBool True),
      (''workflow_id'', PStr workflow_id),
      (''issue_key'', PStr issue_key),
      (''issue_url'', PStr (''https://'' @ jira_base_url env @ ''/browse/'' @ issue_key)),
      (''pr_url'', pr_url),
      (''bug_title'', dict_get bug_report ''title''),
      (''severity'', dict_get_default bug_report ''severity'' (PStr ''Medium'')),
      (''similar_issues'', PList (find_similar_issues env)),
      (''message'',
         PStr (''Successfully created Jira ticket '' @ issue_key @
               (case pr_url of
                  PStr url \<Rightarrow> if url \<noteq> [] then '' and PR '' @ url else '' (manual fix required)''
                | v \<Rightarrow> '' (manual fix required)'')))]"

definition failure_result :: "string \<Rightarrow> exc \<Rightarrow> pydict" where
  "failure_result workflow_id e =
     [(''success'', PBool False),
      (''workflow_id'', PStr workflow_id),
      (''error'', PStr (str_exc e)),
      (''message'', PStr (''Failed to process bug report: '' @ str_exc e))]"

definition workflow_body ::
  "env \<Rightarrow> message list \<Rightarrow> string \<Rightarrow> world \<Rightarrow> world \<times> (exc + pydict)" where
  \<comment> \<open>the \<open>try\<close> block: the first exception ends it\<close>
  "workflow_body env conversation workflow_id w =
     (case step1_parse env conversation workflow_id w of
        (w1, Inl e) \<Rightarrow> (w1, Inl e)
      | (w1, Inr bug_report) \<Rightarrow>
     (case step3_context env bug_report workflow_id w1 of
        (w2, Inl e) \<Rightarrow> (w2, Inl e)
      | (w2, Inr code_context) \<Rightarrow>
     (case step4_fix env bug_report code_context workflow_id w2 of
        (w3, Inl e) \<Rightarrow> (w3, Inl e)
      | (w3, Inr fix) \<Rightarrow>
     (case step5_ticket env workflow_id w3 of
        (w4, Inl e) \<Rightarrow> (w4, Inl e)
      | (w4, Inr issue_key) \<Rightarrow>
     (case step6_pr env bug_report fix issue_key workflow_id w4 of
        (w5, Inl e) \<Rightarrow> (w5, Inl e)
      | (w5, Inr pr_url) \<Rightarrow>
          (update_workflow workflow_id ''completed'' [] w5,
           Inr (success_result env workflow_id issue_key pr_url bug_report)))))))"

definition process_slack_conversation ::
  "env \<Rightarrow> world \<Rightarrow> message list \<Rightarrow> string \<Rightarrow> string \<Rightarrow> pydict \<times> world" where
  "process_slack_conversation env w conversation channel_id thread_ts =
     (let workflow_id = channel_id @ ''_'' @ thread_ts
      in case workflow_body env conversation workflow_id w of
           (w1, Inr result) \<Rightarrow> (result, w1)
         | (w1, Inl e) \<Rightarrow>
             (failure_result workflow_id e,
              update_workflow workflow_id ''failed'' [(''error'', PStr (str_exc e))] w1))"

definition fresh_world :: world where
  "fresh_world = \<lparr>active_workflows = (\<lambda>k. None), jira_requests = [], jira_comments = [],
                  git_ref_calls = []\<rparr>"

definition alice :: "message list" where
  "alice = [[(''user'', ''alice''), (''text'', ''Login button does nothing on click''),
             (''ts'', ''1.0'')]]"

definition offline :: env where
  \<comment> \<open>the language model is not reachable; Jira and GitHub answer\<close>
  "offline =
     \<lparr>llm_report = Inl (PyError ''APIConnectionError'' ''Connection error.''),
      llm_fix = Inl (PyError ''APIConnectionError'' ''Connection error.''),
      json_loads = (\<lambda>s. None),
      find_similar_issues = [], get_relevant_files = [],
      analyze_codebase_context = Inr ''No specific code context found'',
      create_ticket = Inr ''CCS-7'',
      jira_add_comment = None, get_branch = Inr ''9fceb02'',
      create_git_ref = (\<lambda>n ref. None),
      time_now = 1730000000, apply_code_changes = True,
      create_pull_request = Inr ''https://github.com/o/r/pull/1'', jira_base_url = ''jira.example''\<rparr>"


definition jira_times_out :: env where
  \<comment> \<open>as \<open>offline\<close>, and creating the ticket raises an exception whose text is empty\<close>
  "jira_times_out = offline\<lparr>create_ticket := Inl (PyError ''TimeoutError'' [])\<rparr>"

definition empty_answer :: env where
  \<comment> \<open>the language model answers with the empty JSON object, which \<open>json.loads\<close> reads\<close>
  "empty_answer =
     offline\<lparr>llm_report := Inr ''{}'',
             json_loads := (\<lambda>s. if s = ''{}'' then Some [] else None)\<rparr>"

definition has_user_and_text :: "message \<Rightarrow> bool" where
  "has_user_and_text msg = (map_of msg ''user'' \<noteq> None \<and> map_of msg ''text'' \<noteq> None)"

definition tracked :: "string \<Rightarrow> world \<Rightarrow> bool" where
  "tracked workflow_id w = (active_workflows w workflow_id \<noteq> None)"

definition steps_of :: "string \<Rightarrow> world \<Rightarrow> (string \<times> pydict) list" where
  \<comment> \<open>the step log of a workflow, empty for an unknown id\<close>
  "steps_of workflow_id w =
     (case active_workflows w workflow_id of None \<Rightarrow> [] | Some entry \<Rightarrow> steps entry)"

definition status_of :: "string \<Rightarrow> world \<Rightarrow> string" where
  "status_of workflow_id w =
     (case active_workflows w workflow_id of None \<Rightarrow> [] | Some entry \<Rightarrow> status entry)"

section \<open>PatchEngine: evaluation on the specification's examples\<close>

text \<open>
  C4. The patch with the single hunk \<open>@@ -2,1 +2,1 @@\<close>, \<open>-old\<close>, \<open>+new\<close> applied to the
  lines a, old, b gives the lines a, new, b: the header's start 2 becomes the offset 1,
  one line is deleted there and the added line is inserted at the same offset.
\<close>

theorem apply_single_hunk_example:
  "apply_diff_to_content ''a\<newline>old\<newline>b'' ''@@ -2,1 +2,1 @@\<newline>-old\<newline>+new'' = Inr ''a\<newline>new\<newline>b''
   \<and> collect_hunks [] None [''@@ -2,1 +2,1 @@'', ''-old'', ''+new'']
       = Inr [\<lparr>old_start = 1, new_start = 1, changes = [''-old'', ''+new'']\<rparr>]
   \<and> apply_hunks [\<lparr>old_start = 1, new_start = 1, changes = [''-old'', ''+new'']\<rparr>]
        [''a'', ''old'', ''b''] = [''a'', ''new'', ''b'']"
  by code_simp

text \<open>
  C10. With an empty original the function returns the empty string whatever the patch
  is, and with an empty patch it returns the original: both are decided before any line
  of the patch is read.
\<close>

theorem apply_empty_original:
  "apply_diff_to_content [] diff = Inr [] \<and> apply_diff_to_content original [] = Inr original"
  by (simp add: apply_diff_to_content_def)

section \<open>PatchEngine: when it raises\<close>




text \<open>
  \<open>int()\<close> rejects a literal of more than 4300 digits, whatever else it holds, and a
  literal with a character that is no digit, sign, underscore or outer white space.
\<close>

lemma filter_digit_dropWhile_space:
  "filter is_digit (dropWhile is_int_space s) = filter is_digit s"
proof (induction s)
  case Nil
  then show ?case by simp
next
  case (Cons c s)
  have "is_int_space c \<Longrightarrow> \<not> is_digit c"
    by (auto simp: is_int_space_def is_digit_def)
  with Cons show ?case by simp
qed

lemma filter_digit_strip_int: "filter is_digit (strip_int s) = filter is_digit s"
proof -
  have "filter is_digit (strip_int s)
          = rev (filter is_digit (dropWhile is_int_space (rev (dropWhile is_int_space s))))"
    by (simp add: strip_int_def rev_filter)
  also have "\<dots> = rev (filter is_digit (rev (dropWhile is_int_space s)))"
    by (simp only: filter_digit_dropWhile_space)
  also have "\<dots> = filter is_digit (dropWhile is_int_space s)"
    by (simp add: rev_filter)
  finally show ?thesis by (simp add: filter_digit_dropWhile_space)
qed

lemma py_int_digit_limit:
  "int_max_str_digits < length (filter is_digit s) \<Longrightarrow> py_int s = None"
proof -
  assume big: "int_max_str_digits < length (filter is_digit s)"
  then have "int_max_str_digits < length (filter is_digit (strip_int s))"
    by (simp add: filter_digit_strip_int)
  then show ?thesis
    by (cases "strip_int s") (simp_all add: py_int_def)
qed

lemma py_int_long_zero: "py_int (replicate 4301 (CHR ''0'')) = None"
proof -
  have "is_digit (CHR ''0'')" by (simp add: is_digit_def)
  then have "length (filter is_digit (replicate 4301 (CHR ''0''))) = 4301" by simp
  then show ?thesis by (simp add: py_int_digit_limit int_max_str_digits_def)
qed

text \<open>
  A header whose start has 4301 digits: \<open>int()\<close> raises on it, and so does the function.
\<close>

lemma split_from_run:
  "list_all (\<lambda>c. \<not> is_space c) run \<Longrightarrow> split_from cur (run @ rest) = split_from (cur @ run) rest"
  by (induction run arbitrary: cur) simp_all

lemma split_sep_from_run:
  "sep \<notin> set run \<Longrightarrow> split_sep_from sep cur run = [cur @ run]"
  by (induction run arbitrary: cur) auto

lemma splitlines_from_run:
  "list_all (\<lambda>c. \<not> is_linebreak c) run \<Longrightarrow>
     splitlines_from cur (run @ c # rest) = splitlines_from (cur @ run) (c # rest)"
proof (induction run arbitrary: cur)
  case Nil
  then show ?case by simp
next
  case (Cons r rs)
  have nl: "\<not> is_linebreak r" using Cons.prems by simp
  then have ncr: "r \<noteq> CHR 0x0D" by (auto simp: is_linebreak_def)
  obtain d ds where ds: "rs @ c # rest = d # ds" by (cases "rs @ c # rest") auto
  have "splitlines_from cur (r # d # ds) = splitlines_from (cur @ [r]) (d # ds)"
    using nl ncr by simp
  then show ?case using Cons ds by simp
qed

lemma long_literal_no_space: "list_all (\<lambda>c. \<not> is_space c) long_literal"
  by (simp add: long_literal_def list_all_iff is_space_def)

lemma long_literal_no_linebreak: "list_all (\<lambda>c. \<not> is_linebreak c) long_literal"
  by (simp add: long_literal_def list_all_iff is_linebreak_def)

lemma long_literal_no_comma: "CHR '','' \<notin> set long_literal"
  by (simp add: long_literal_def)

lemma long_header_parts:
  "py_split (''@@ -'' @ long_literal @ '' +1 @@'') = [''@@'', ''-'' @ long_literal, ''+1'', ''@@'']"
proof -
  have "py_split (''@@ -'' @ long_literal @ '' +1 @@'') = ''@@'' # split_from ''-'' (long_literal @ '' +1 @@'')"
    by (simp add: py_split_def is_space_def)
  also have "split_from ''-'' (long_literal @ '' +1 @@'') = split_from (''-'' @ long_literal) '' +1 @@''"
    using split_from_run [OF long_literal_no_space] by simp
  also have "\<dots> = [''-'' @ long_literal, ''+1'', ''@@'']"
    by (simp add: is_space_def)
  finally show ?thesis by simp
qed

lemma long_header_rejected: "\<not> header_ok (''@@ -'' @ long_literal @ '' +1 @@'')"
proof -
  have rs: "range_start (''-'' @ long_literal) = long_literal"
    using split_sep_from_run [OF long_literal_no_comma, of "''-''"]
    by (simp add: range_start_def split_sep_def)
  have "py_int long_literal = None" using py_int_long_zero by (simp add: long_literal_def)
  then show ?thesis
    using rs long_header_parts by (simp add: header_ok_def startswith_def)
qed

lemma long_header_lines:
  "splitlines (''@@ -'' @ long_literal @ '' +1 @@\<newline>+x'') = [''@@ -'' @ long_literal @ '' +1 @@'', ''+x'']"
proof -
  have nl: "list_all (\<lambda>c. \<not> is_linebreak c) (''@@ -'' @ long_literal)"
    using long_literal_no_linebreak by (simp add: is_linebreak_def)
  show ?thesis
    using splitlines_from_run [OF nl, of "[]" "CHR '' ''" "''+1 @@\<newline>+x''"]
    by (simp add: splitlines_def is_linebreak_def)
qed

lemma apply_diff_long_header_raises:
  "apply_diff_to_content ''a'' (''@@ -'' @ long_literal @ '' +1 @@\<newline>+x'') = Inl (ValueError long_literal)"
proof -
  have rs: "range_start (''-'' @ long_literal) = long_literal"
    using split_sep_from_run [OF long_literal_no_comma, of "''-''"]
    by (simp add: range_start_def split_sep_def)
  have pi: "py_int long_literal = None" using py_int_long_zero by (simp add: long_literal_def)
  have c: "collect_hunks [] None [''@@ -'' @ long_literal @ '' +1 @@'', ''+x''] = Inl (ValueError long_literal)"
    using rs pi long_header_parts by (simp add: startswith_def Let_def)
  show ?thesis
    using c long_header_lines by (simp add: apply_diff_to_content_def)
qed




section \<open>PatchEngine: the order of the hunks\<close>

lemma insert_lines_nonneg:
  "0 \<le> pos \<Longrightarrow> insert_lines pos ls xs = take (nat pos) xs @ ls @ drop (nat pos) xs"
proof (induction ls arbitrary: pos xs)
  case Nil
  then show ?case by simp
next
  case (Cons l ls)
  have p1: "nat (pos + 1) = Suc (nat pos)" using Cons.prems by simp
  show ?case
  proof (cases "nat pos \<le> length xs")
    case True
    have ins: "py_insert pos l xs = take (nat pos) xs @ l # drop (nat pos) xs"
      using Cons.prems True by (simp add: py_insert_def norm_index_def min_def Let_def)
    have len: "length (take (nat pos) xs) = nat pos" using True by simp
    have "insert_lines (pos + 1) ls (py_insert pos l xs)
            = take (Suc (nat pos)) (take (nat pos) xs @ l # drop (nat pos) xs) @ ls
              @ drop (Suc (nat pos)) (take (nat pos) xs @ l # drop (nat pos) xs)"
      using Cons.IH [of "pos + 1" "py_insert pos l xs"] Cons.prems p1 ins by simp
    also have "\<dots> = (take (nat pos) xs @ [l]) @ ls @ drop (nat pos) xs"
      using len by (simp add: take_Suc_conv_app_nth)
    finally show ?thesis by simp
  next
    case False
    then have gt: "length xs < nat pos" by simp
    have ins: "py_insert pos l xs = xs @ [l]"
      using Cons.prems gt by (simp add: py_insert_def norm_index_def min_def Let_def)
    have "insert_lines (pos + 1) ls (py_insert pos l xs)
            = take (Suc (nat pos)) (xs @ [l]) @ ls @ drop (Suc (nat pos)) (xs @ [l])"
      using Cons.IH [of "pos + 1" "py_insert pos l xs"] Cons.prems p1 ins by simp
    also have "\<dots> = (xs @ [l]) @ ls" using gt by simp
    finally show ?thesis using gt by simp
  qed
qed

lemma py_del_slice_nonneg:
  "0 \<le> a \<Longrightarrow> 0 < r \<Longrightarrow>
     py_del_slice a (min (a + int r) (int (length xs))) xs = take (nat a) xs @ drop (nat a + r) xs"
  by (auto simp: py_del_slice_def norm_index_def Let_def min_def nat_add_distrib)

lemma insert_after_delete:
  "take s (take s xs @ drop (s + r) xs) @ n @ drop s (take s xs @ drop (s + r) xs)
     = take s xs @ n @ drop (s + r) xs"
  by (cases "s \<le> length xs") (simp_all add: min_def)

lemma apply_hunk_nonneg:
  assumes "0 \<le> old_start h"
  shows "apply_hunk h ls =
           take (nat (old_start h)) ls @ new_lines h @ drop (nat (old_start h) + lines_to_remove h) ls"
proof (cases "lines_to_remove h > 0")
  case True
  have "apply_hunk h ls
          = insert_lines (old_start h) (new_lines h)
              (take (nat (old_start h)) ls @ drop (nat (old_start h) + lines_to_remove h) ls)"
    using assms True py_del_slice_nonneg [of "old_start h" "lines_to_remove h" ls]
    by (simp add: apply_hunk_def)
  then show ?thesis
    using assms by (simp only: insert_lines_nonneg insert_after_delete)
next
  case False
  then show ?thesis
    using assms by (simp add: apply_hunk_def insert_lines_nonneg)
qed

lemma two_edits_commute:
  fixes d :: "'a list"
  assumes "s1 + r1 \<le> s2" and "s2 \<le> length d" and "length n1 = r1"
  shows "take s1 (take s2 d @ n2 @ drop (s2 + r2) d) @ n1
           @ drop (s1 + r1) (take s2 d @ n2 @ drop (s2 + r2) d)
         = take s2 (take s1 d @ n1 @ drop (s1 + r1) d) @ n2
           @ drop (s2 + r2) (take s1 d @ n1 @ drop (s1 + r1) d)"
proof -
  have le: "s1 \<le> s2" "s1 \<le> length d" "r1 \<le> s2 - s1" "s1 + r1 \<le> length d"
    using assms by simp_all
  have a: "take s1 (take s2 d @ n2 @ drop (s2 + r2) d) = take s1 d"
    using assms le by (simp add: min_def)
  have b: "drop (s1 + r1) (take s2 d @ n2 @ drop (s2 + r2) d)
             = drop (s1 + r1) (take s2 d) @ n2 @ drop (s2 + r2) d"
    using assms by simp
  have c: "take s2 (take s1 d @ n1 @ drop (s1 + r1) d)
             = take s1 d @ n1 @ take (s2 - (s1 + r1)) (drop (s1 + r1) d)"
    using assms le by (auto simp: min_def)
  have d': "drop (s2 + r2) (take s1 d @ n1 @ drop (s1 + r1) d) = drop (s2 + r2) d"
    using assms le by (simp add: min_def)
  have e: "take (s2 - (s1 + r1)) (drop (s1 + r1) d) = drop (s1 + r1) (take s2 d)"
    using assms by (simp add: drop_take)
  show ?thesis unfolding a b c d' e by simp
qed

text \<open>
  C3, as the code has it. The hunks are applied last listed first, each at its offset in
  the original numbering, and nothing sorts them. Two patches that list the same two
  hunks in opposite orders give the same result on every document (a 10-line one
  included) when the hunks do not overlap, the upper one starts inside the document and
  the lower one inserts as many lines as it deletes, so that it shifts nothing below it.
\<close>

theorem hunk_order_irrelevant_when_lower_hunk_keeps_length:
  assumes asc: "collect_hunks [] None (splitlines patch_asc) = Inr [h1, h2]"
      and desc: "collect_hunks [] None (splitlines patch_desc) = Inr [h2, h1]"
      and lo: "0 \<le> old_start h1"
      and apart: "old_start h1 + int (lines_to_remove h1) \<le> old_start h2"
      and inside: "old_start h2 \<le> int (length (splitlines original))"
      and keeps: "length (new_lines h1) = lines_to_remove h1"
  shows "apply_diff_to_content original patch_asc = apply_diff_to_content original patch_desc"
proof -
  have ne1: "patch_asc \<noteq> []" using asc by (auto simp: splitlines_def opt_list_def)
  have ne2: "patch_desc \<noteq> []" using desc by (auto simp: splitlines_def opt_list_def)
  have lo2: "0 \<le> old_start h2" using lo apart by linarith
  define d where "d = splitlines original"
  have "apply_hunks [h1, h2] d = apply_hunks [h2, h1] d"
    unfolding apply_hunks_def
    using two_edits_commute [of "nat (old_start h1)" "lines_to_remove h1" "nat (old_start h2)" d
            "new_lines h1" "new_lines h2" "lines_to_remove h2"]
      lo lo2 apart inside keeps
    by (simp add: apply_hunk_nonneg d_def)
  then show ?thesis
    using asc desc ne1 ne2 by (simp add: apply_diff_to_content_def d_def)
qed

text \<open>
  C3 as stated fails. On the 10-line document 1, ..., 10 take the hunk at line 2 that
  replaces one line by two and the hunk at line 8 that replaces one line by one. Listed
  in ascending order, line 8 is replaced; listed in descending order, the lower hunk is
  applied first, shifts the document by one line, and the upper hunk replaces line 7.
\<close>

theorem hunk_order_changes_result:
  "apply_diff_to_content ''1\<newline>2\<newline>3\<newline>4\<newline>5\<newline>6\<newline>7\<newline>8\<newline>9\<newline>10''
      ''@@ -2,1 +2,2 @@\<newline>-2\<newline>+a\<newline>+b\<newline>@@ -8,1 +9,1 @@\<newline>-8\<newline>+c''
     = Inr ''1\<newline>a\<newline>b\<newline>3\<newline>4\<newline>5\<newline>6\<newline>7\<newline>c\<newline>9\<newline>10''
   \<and> apply_diff_to_content ''1\<newline>2\<newline>3\<newline>4\<newline>5\<newline>6\<newline>7\<newline>8\<newline>9\<newline>10''
      ''@@ -8,1 +9,1 @@\<newline>-8\<newline>+c\<newline>@@ -2,1 +2,2 @@\<newline>-2\<newline>+a\<newline>+b''
     = Inr ''1\<newline>a\<newline>b\<newline>3\<newline>4\<newline>5\<newline>6\<newline>c\<newline>8\<newline>9\<newline>10''"
  by code_simp

text \<open>
  The hypotheses hold for a 10-line document and two one-line replacements, the upper
  one adding a second line.
\<close>

theorem hunk_order_irrelevant_witness:
  "collect_hunks [] None (splitlines ''@@ -2,1 +2,1 @@\<newline>-2\<newline>+a\<newline>@@ -8,1 +8,2 @@\<newline>-8\<newline>+c\<newline>+d'')
     = Inr [\<lparr>old_start = 1, new_start = 1, changes = [''-2'', ''+a'']\<rparr>,
            \<lparr>old_start = 7, new_start = 7, changes = [''-8'', ''+c'', ''+d'']\<rparr>]
   \<and> collect_hunks [] None (splitlines ''@@ -8,1 +8,2 @@\<newline>-8\<newline>+c\<newline>+d\<newline>@@ -2,1 +2,1 @@\<newline>-2\<newline>+a'')
     = Inr [\<lparr>old_start = 7, new_start = 7, changes = [''-8'', ''+c'', ''+d'']\<rparr>,
            \<lparr>old_start = 1, new_start = 1, changes = [''-2'', ''+a'']\<rparr>]
   \<and> length (splitlines ''1\<newline>2\<newline>3\<newline>4\<newline>5\<newline>6\<newline>7\<newline>8\<newline>9\<newline>10'') = 10
   \<and> apply_diff_to_content ''1\<newline>2\<newline>3\<newline>4\<newline>5\<newline>6\<newline>7\<newline>8\<newline>9\<newline>10''
        ''@@ -2,1 +2,1 @@\<newline>-2\<newline>+a\<newline>@@ -8,1 +8,2 @@\<newline>-8\<newline>+c\<newline>+d''
     = apply_diff_to_content ''1\<newline>2\<newline>3\<newline>4\<newline>5\<newline>6\<newline>7\<newline>8\<newline>9\<newline>10''
        ''@@ -8,1 +8,2 @@\<newline>-8\<newline>+c\<newline>+d\<newline>@@ -2,1 +2,1 @@\<newline>-2\<newline>+a''"
proof -
  let ?h1 = "\<lparr>old_start = 1, new_start = 1, changes = [''-2'', ''+a'']\<rparr>"
  let ?h2 = "\<lparr>old_start = 7, new_start = 7, changes = [''-8'', ''+c'', ''+d'']\<rparr>"
  have a: "collect_hunks [] None (splitlines ''@@ -2,1 +2,1 @@\<newline>-2\<newline>+a\<newline>@@ -8,1 +8,2 @@\<newline>-8\<newline>+c\<newline>+d'')
     = Inr [?h1, ?h2]" by code_simp
  have b: "collect_hunks [] None (splitlines ''@@ -8,1 +8,2 @@\<newline>-8\<newline>+c\<newline>+d\<newline>@@ -2,1 +2,1 @@\<newline>-2\<newline>+a'')
     = Inr [?h2, ?h1]" by code_simp
  have c: "length (splitlines ''1\<newline>2\<newline>3\<newline>4\<newline>5\<newline>6\<newline>7\<newline>8\<newline>9\<newline>10'') = 10" by code_simp
  have l: "0 \<le> old_start ?h1" by simp
  have ap: "old_start ?h1 + int (lines_to_remove ?h1) \<le> old_start ?h2" by code_simp
  have ins: "old_start ?h2 \<le> int (length (splitlines ''1\<newline>2\<newline>3\<newline>4\<newline>5\<newline>6\<newline>7\<newline>8\<newline>9\<newline>10''))"
    by code_simp
  have k: "length (new_lines ?h1) = lines_to_remove ?h1" by code_simp
  show ?thesis
    using a b c hunk_order_irrelevant_when_lower_hunk_keeps_length [OF a b l ap ins k]
    by simp
qed

section \<open>KeywordExtractor\<close>

lemma keep_non_stopwords_append:
  "keep_non_stopwords (a @ b) =
     (case keep_non_stopwords a of
        Inl e \<Rightarrow> Inl e
      | Inr ra \<Rightarrow> (case keep_non_stopwords b of Inl e \<Rightarrow> Inl e | Inr rb \<Rightarrow> Inr (ra @ rb)))"
proof (induction a rule: keep_non_stopwords.induct)
  case 1
  then show ?case by (simp split: sum.splits)
next
  case (2 s ks)
  then show ?case by (simp split: sum.splits)
qed simp_all

lemma keep_non_stopwords_strs:
  "keep_non_stopwords (map PStr ss) = Inr (filter (\<lambda>s. lower s \<notin> set stopwords) ss)"
  by (induction ss) simp_all

lemma keep_non_stopwords_all_str:
  "list_all is_str xs \<Longrightarrow> \<exists>r. keep_non_stopwords xs = Inr r"
proof (induction xs rule: keep_non_stopwords.induct)
  case (2 s ks)
  then show ?case by (auto split: sum.splits)
qed simp_all

lemma keep_non_stopwords_sound:
  "keep_non_stopwords xs = Inr r \<Longrightarrow>
     subseq (map PStr r) xs \<and> list_all (\<lambda>k. lower k \<notin> set stopwords) r"
proof (induction xs arbitrary: r rule: keep_non_stopwords.induct)
  case 1
  then show ?case by simp
next
  case (2 s ks)
  then show ?case by (auto split: sum.splits if_splits)
qed simp_all

lemma title_keywords_sound:
  "title_keywords r = Inr tw \<Longrightarrow> subseq tw (title_words r) \<and> list_all (\<lambda>w. length w > 3) tw"
  by (auto simp: title_keywords_def title_words_def list_all_iff split: if_splits pyval.splits)

lemma well_typed_title:
  "well_typed_report r \<Longrightarrow> \<exists>tw. title_keywords r = Inr tw"
  by (auto simp: well_typed_report_def title_keywords_def dict_get_def
           split: option.splits pyval.splits)

lemma well_typed_components:
  "well_typed_report r \<Longrightarrow> \<exists>cs. component_entries r = Inr cs \<and> list_all is_str cs"
  by (auto simp: well_typed_report_def component_entries_def dict_get_default_def list_all_iff
           split: option.splits pyval.splits)

text \<open>
  C7. On every report whose title is a string (or missing) and whose affected components
  are a list of strings, a string or missing, \<open>_extract_keywords\<close> returns; and whatever
  it returns has at most 5 entries, none of them a stop word once lowered, and consists
  of words of the title, all longer than 3 characters and in their order, followed by
  entries of the affected components in their order.
\<close>

theorem extract_keywords_contract:
  "(well_typed_report r \<longrightarrow> (\<exists>ks. extract_keywords r = Inr ks))
   \<and> (extract_keywords r = Inr ks \<longrightarrow>
        length ks \<le> 5
      \<and> list_all (\<lambda>k. lower k \<notin> set stopwords) ks
      \<and> (\<exists>tw cs. ks = tw @ cs \<and> subseq tw (title_words r)
            \<and> list_all (\<lambda>w. length w > 3) tw
            \<and> subseq (map PStr cs) (component_names r)))"
proof (intro conjI impI)
  assume wt: "well_typed_report r"
  obtain tw where tw: "title_keywords r = Inr tw" using wt well_typed_title by blast
  obtain cs where cs: "component_entries r = Inr cs" "list_all is_str cs"
    using wt well_typed_components by blast
  have "list_all is_str (map PStr tw @ cs)" using cs(2) by (auto simp: list_all_iff)
  then obtain k where "keep_non_stopwords (map PStr tw @ cs) = Inr k"
    using keep_non_stopwords_all_str by blast
  then show "\<exists>ks. extract_keywords r = Inr ks"
    using tw cs by (simp add: extract_keywords_def)
next
  assume ex: "extract_keywords r = Inr ks"
  then obtain tw0 cs0 k0 where tw0: "title_keywords r = Inr tw0"
    and cs0: "component_entries r = Inr cs0"
    and k0: "keep_non_stopwords (map PStr tw0 @ cs0) = Inr k0"
    and ks: "ks = take 5 k0"
    by (auto simp: extract_keywords_def split: sum.splits)
  let ?ok = "\<lambda>s. lower s \<notin> set stopwords"
  obtain rb where rb: "keep_non_stopwords cs0 = Inr rb" and k0_eq: "k0 = filter ?ok tw0 @ rb"
    using k0 by (auto simp: keep_non_stopwords_append keep_non_stopwords_strs split: sum.splits)
  have t: "subseq tw0 (title_words r)" "list_all (\<lambda>w. length w > 3) tw0"
    using title_keywords_sound [OF tw0] by simp_all
  have c: "subseq (map PStr rb) cs0" using keep_non_stopwords_sound [OF rb] by simp
  have all_ok: "list_all ?ok k0" using keep_non_stopwords_sound [OF k0] by simp
  show "length ks \<le> 5" using ks by simp
  show "list_all ?ok ks"
    using all_ok ks by (auto simp: list_all_iff dest: in_set_takeD)
  let ?tw = "take 5 (filter ?ok tw0)"
  let ?cs = "take (5 - length (filter ?ok tw0)) rb"
  have split: "ks = ?tw @ ?cs" using ks k0_eq by simp
  have s1: "subseq ?tw (title_words r)"
  proof -
    have "subseq ?tw (filter ?ok tw0)" by (metis append_take_drop_id subseq_rev_drop_many subseq_order.order_refl)
    moreover have "subseq (filter ?ok tw0) tw0" by simp
    ultimately show ?thesis using t(1) subseq_order.order_trans by blast
  qed
  have s2: "list_all (\<lambda>w. length w > 3) ?tw"
    using t(2) by (auto simp: list_all_iff dest: in_set_takeD)
  have s3: "subseq (map PStr ?cs) (component_names r)"
  proof -
    have "map PStr ?cs = take (5 - length (filter ?ok tw0)) (map PStr rb)" by (simp add: take_map)
    moreover have "subseq (take (5 - length (filter ?ok tw0)) (map PStr rb)) (map PStr rb)"
      by (metis append_take_drop_id subseq_rev_drop_many subseq_order.order_refl)
    ultimately show ?thesis
      using c cs0 subseq_order.order_trans by (fastforce simp: component_names_def)
  qed
  show "\<exists>tw cs. ks = tw @ cs \<and> subseq tw (title_words r)
            \<and> list_all (\<lambda>w. length w > 3) tw
            \<and> subseq (map PStr cs) (component_names r)"
    using split s1 s2 s3 by blast
qed

text \<open>
  C8. For a report whose title gives no keyword and whose affected components are the
  single string database, \<open>keywords.extend(affected_components)\<close> iterates over the
  string: the result is its first five characters, and database is no entry of it.
  The caller tests for a string and appends it whole, after those characters.
\<close>

theorem extract_keywords_splits_string_component:
  "extract_keywords [(''title'', PStr ''Bug''), (''affected_components'', PStr ''database'')]
     = Inr [''d'', ''a'', ''t'', ''a'', ''b'']
   \<and> ''database'' \<notin> set [''d'', ''a'', ''t'', ''a'', ''b'']
   \<and> search_keywords [(''title'', PStr ''Bug''), (''affected_components'', PStr ''database'')]
     = Inr [PStr ''d'', PStr ''a'', PStr ''t'', PStr ''a'', PStr ''b'', PStr ''database'']"
  by code_simp

text \<open>The contract on a report with a seven-word title and two components.\<close>

theorem extract_keywords_contract_witness:
  "well_typed_report [(''title'', PStr ''Login button does nothing with THIS Click''),
                      (''affected_components'', PList [PStr ''auth.ts'', PStr ''db''])]
   \<and> extract_keywords [(''title'', PStr ''Login button does nothing with THIS Click''),
                      (''affected_components'', PList [PStr ''auth.ts'', PStr ''db''])]
       = Inr [''Login'', ''button'', ''does'', ''nothing'', ''Click'']
   \<and> length [''Login'', ''button'', ''does'', ''nothing'', ''Click''] \<le> 5"
proof -
  let ?r = "[(''title'', PStr ''Login button does nothing with THIS Click''),
             (''affected_components'', PList [PStr ''auth.ts'', PStr ''db''])]"
  have wt: "well_typed_report ?r" by code_simp
  have ev: "extract_keywords ?r = Inr [''Login'', ''button'', ''does'', ''nothing'', ''Click'']"
    by code_simp
  show ?thesis
    using wt ev extract_keywords_contract [of ?r "[''Login'', ''button'', ''does'', ''nothing'', ''Click'']"]
    by simp
qed

section \<open>Branch creation\<close>

text \<open>
  C9. When the base branch is found and creating the branch fails with a 422 conflict,
  \<open>create_git_ref\<close> is called exactly once more, with the name suffixed by the time;
  the suffixed name is returned if that call succeeds and its exception is raised if it
  fails. An error that is no conflict is raised after the one call. In no case is
  \<open>create_git_ref\<close> called more than twice.
\<close>

theorem create_fix_branch_retries_once:
  "(get_branch env = Inr sha
      \<and> create_git_ref env 0 (head_ref (fix_branch_name issue_key bug_title)) = Some e
      \<and> is_conflict e
    \<longrightarrow> create_fix_branch env issue_key bug_title =
          ([head_ref (fix_branch_name issue_key bug_title),
            head_ref (fix_branch_name issue_key bug_title @ ''-'' @ str_of_int (time_now env))],
           (case create_git_ref env 1
                   (head_ref (fix_branch_name issue_key bug_title @ ''-'' @ str_of_int (time_now env))) of
              None \<Rightarrow> Inr (fix_branch_name issue_key bug_title @ ''-'' @ str_of_int (time_now env))
            | Some e2 \<Rightarrow> Inl e2)))
   \<and> (get_branch env = Inr sha
      \<and> create_git_ref env 0 (head_ref (fix_branch_name issue_key bug_title)) = Some e
      \<and> \<not> is_conflict e
    \<longrightarrow> create_fix_branch env issue_key bug_title =
          ([head_ref (fix_branch_name issue_key bug_title)], Inl e))
   \<and> length (fst (create_fix_branch env issue_key bug_title)) \<le> 2"
proof (intro conjI impI)
  assume a: "get_branch env = Inr sha
      \<and> create_git_ref env 0 (head_ref (fix_branch_name issue_key bug_title)) = Some e
      \<and> is_conflict e"
  then obtain msg where e: "e = GithubException 422 msg" by (cases e) auto
  show "create_fix_branch env issue_key bug_title =
          ([head_ref (fix_branch_name issue_key bug_title),
            head_ref (fix_branch_name issue_key bug_title @ ''-'' @ str_of_int (time_now env))],
           (case create_git_ref env 1
                   (head_ref (fix_branch_name issue_key bug_title @ ''-'' @ str_of_int (time_now env))) of
              None \<Rightarrow> Inr (fix_branch_name issue_key bug_title @ ''-'' @ str_of_int (time_now env))
            | Some e2 \<Rightarrow> Inl e2))"
    using a e by (simp add: create_fix_branch_def on_branch_error_def Let_def split: option.splits)
next
  assume a: "get_branch env = Inr sha
      \<and> create_git_ref env 0 (head_ref (fix_branch_name issue_key bug_title)) = Some e
      \<and> \<not> is_conflict e"
  then show "create_fix_branch env issue_key bug_title =
          ([head_ref (fix_branch_name issue_key bug_title)], Inl e)"
    by (cases e) (simp_all add: create_fix_branch_def on_branch_error_def Let_def)
next
  show "length (fst (create_fix_branch env issue_key bug_title)) \<le> 2"
    by (simp add: create_fix_branch_def on_branch_error_def Let_def
             split: sum.splits option.splits exc.splits)
qed

text \<open>In the environment \<open>busy_repo\<close>: two calls, the second with the time suffix, whose
  name is returned.\<close>

theorem create_fix_branch_retries_once_witness:
  "create_fix_branch busy_repo ''CCS-7'' ''Login button: does nothing!!'' =
     ([''refs/heads/fix/ccs-7-login-button-does-nothing-'',
       ''refs/heads/fix/ccs-7-login-button-does-nothing--1730000000''],
      Inr ''fix/ccs-7-login-button-does-nothing--1730000000'')"
proof -
  have g: "get_branch busy_repo = Inr ''9fceb02''" by (simp add: busy_repo_def)
  have c: "create_git_ref busy_repo 0 (head_ref (fix_branch_name ''CCS-7'' ''Login button: does nothing!!''))
             = Some (GithubException 422 ''Reference already exists'')"
    by (simp add: busy_repo_def)
  have k: "is_conflict (GithubException 422 ''Reference already exists'')" by simp
  have r: "create_git_ref busy_repo 1 ref = None" for ref by (simp add: busy_repo_def)
  have n: "fix_branch_name ''CCS-7'' ''Login button: does nothing!!''
             = ''fix/ccs-7-login-button-does-nothing-''" by code_simp
  have t: "str_of_int (time_now busy_repo) = ''1730000000''"
    by (simp add: busy_repo_def str_of_int_def digits_of.simps digit_char_def)
  show ?thesis
    using create_fix_branch_retries_once [of busy_repo "''9fceb02''" "''CCS-7''"
            "''Login button: does nothing!!''" "GithubException 422 ''Reference already exists''"]
      g c k r n t
    by (simp add: head_ref_def)
qed

section \<open>The orchestrator\<close>

lemma update_workflow_tracked [simp]:
  "tracked k w \<Longrightarrow> tracked k (update_workflow k st d w)"
  by (auto simp: tracked_def update_workflow_def)

lemma update_workflow_steps [simp]:
  "tracked k w \<Longrightarrow> steps_of k (update_workflow k st d w) = steps_of k w @ [(st, d)]"
  by (auto simp: tracked_def steps_of_def update_workflow_def)

lemma update_workflow_status [simp]:
  "tracked k w \<Longrightarrow> status_of k (update_workflow k st d w) = st"
  by (auto simp: tracked_def status_of_def update_workflow_def)

lemma update_workflow_jira [simp]:
  "jira_requests (update_workflow k st d w) = jira_requests w"
  "jira_comments (update_workflow k st d w) = jira_comments w"
  by (auto simp: update_workflow_def split: option.splits)

lemma add_comment_effect [simp]:
  "tracked k (add_comment env i c w) = tracked k w"
  "steps_of k (add_comment env i c w) = steps_of k w"
  "jira_requests (add_comment env i c w) = jira_requests w @ [(i, c)]"
  by (auto simp: add_comment_def tracked_def steps_of_def Let_def split: option.splits)

lemma add_comment_stored [simp]:
  "jira_add_comment env = None \<Longrightarrow>
     jira_comments (add_comment env i c w) = jira_comments w @ [(i, c)]"
  by (simp add: add_comment_def Let_def)

lemma git_ref_calls_update [simp]:
  "tracked k (w\<lparr>git_ref_calls := g\<rparr>) = tracked k w"
  "steps_of k (w\<lparr>git_ref_calls := g\<rparr>) = steps_of k w"
  by (simp_all add: tracked_def steps_of_def)

lemma step1_parse_log:
  assumes "step1_parse env c k w = (w1, res)"
  shows "tracked k w1" and "jira_requests w1 = jira_requests w"
    and "jira_comments w1 = jira_comments w"
    and "res = Inl e \<Longrightarrow> steps_of k w1 = [(''parsing_bug_report'', [])]"
    and "res = Inr b \<Longrightarrow>
           steps_of k w1 = [(''parsing_bug_report'', []),
                            (''bug_report_parsed'', [(''bug_title'', dict_get b ''title'')])]"
proof -
  let ?w0 = "w\<lparr>active_workflows :=
                 (active_workflows w)(k \<mapsto> \<lparr>status = ''started'', steps = []\<rparr>)\<rparr>"
  have t: "tracked k ?w0" by (simp add: tracked_def)
  have s: "steps_of k ?w0 = []" by (simp add: steps_of_def)
  have j: "jira_requests ?w0 = jira_requests w" "jira_comments ?w0 = jira_comments w" by simp_all
  show "tracked k w1"
    using assms t by (auto simp: step1_parse_def Let_def split: sum.splits if_splits)
  show "jira_requests w1 = jira_requests w"
    using assms j by (auto simp: step1_parse_def Let_def split: sum.splits if_splits)
  show "jira_comments w1 = jira_comments w"
    using assms j by (auto simp: step1_parse_def Let_def split: sum.splits if_splits)
  show "res = Inl e \<Longrightarrow> steps_of k w1 = [(''parsing_bug_report'', [])]"
    using assms t s by (auto simp: step1_parse_def Let_def split: sum.splits if_splits)
  show "res = Inr b \<Longrightarrow>
           steps_of k w1 = [(''parsing_bug_report'', []),
                            (''bug_report_parsed'', [(''bug_title'', dict_get b ''title'')])]"
    using assms t s by (auto simp: step1_parse_def Let_def split: sum.splits if_splits)
qed

lemma step3_context_log:
  assumes "step3_context env b k w = (w2, res)" and "tracked k w"
  shows "tracked k w2" and "jira_requests w2 = jira_requests w"
    and "jira_comments w2 = jira_comments w"
    and "steps_of k w2 = steps_of k w @ [(''analyzing_codebase'', [])]"
  using assms by (auto simp: step3_context_def Let_def split: sum.splits if_splits)

lemma step4_fix_log:
  assumes "step4_fix env b ctx k w = (w3, res)" and "tracked k w"
  shows "tracked k w3" and "jira_requests w3 = jira_requests w"
    and "jira_comments w3 = jira_comments w"
    and "res = Inl e \<Longrightarrow> steps_of k w3 = steps_of k w @ [(''generating_fix'', [])]"
    and "res = Inr fix \<Longrightarrow>
           \<exists>n. py_len (dict_get_default fix ''code_changes'' (PList [])) = Inr n
              \<and> steps_of k w3 = steps_of k w @ [(''generating_fix'', []),
                   (''fix_generated'', [(''files_to_change'', PInt (int n))])]"
  using assms by (auto simp: step4_fix_def Let_def split: sum.splits if_splits)

lemma step5_ticket_log:
  assumes "step5_ticket env k w = (w4, res)" and "tracked k w"
  shows "tracked k w4" and "jira_requests w4 = jira_requests w"
    and "jira_comments w4 = jira_comments w"
    and "res = Inl e \<Longrightarrow> steps_of k w4 = steps_of k w @ [(''creating_jira_ticket'', [])]"
    and "res = Inr key \<Longrightarrow>
           steps_of k w4 = steps_of k w @ [(''creating_jira_ticket'', []),
                   (''jira_ticket_created'', [(''issue_key'', PStr key)])]"
  using assms by (auto simp: step5_ticket_def Let_def split: sum.splits if_splits)

lemma open_pull_request_log:
  assumes "open_pull_request env key k w = (w', res)" and "tracked k w"
  shows "tracked k w'"
    and "steps_of k w' = steps_of k w
         \<or> (\<exists>u. steps_of k w' = steps_of k w @ [(''pr_created'', [(''pr_url'', PStr u)])])"
  using assms by (auto simp: open_pull_request_def split: sum.splits if_splits)

lemma step6_pr_log:
  assumes run: "step6_pr env b fix key k w = (w5, res)" and tr: "tracked k w"
  shows "tracked k w5"
    and "steps_of k w5 = steps_of k w
         \<or> steps_of k w5 = steps_of k w @ [(''creating_pr'', [])]
         \<or> (\<exists>u. steps_of k w5 = steps_of k w @ [(''creating_pr'', []),
                                                  (''pr_created'', [(''pr_url'', PStr u)])])"
proof -
  let ?w1 = "update_workflow k ''creating_pr'' [] w"
  have t1: "tracked k ?w1" and s1: "steps_of k ?w1 = steps_of k w @ [(''creating_pr'', [])]"
    using tr by simp_all
  have both: "tracked k w5 \<and> (steps_of k w5 = steps_of k w
         \<or> steps_of k w5 = steps_of k w @ [(''creating_pr'', [])]
         \<or> (\<exists>u. steps_of k w5 = steps_of k w @ [(''creating_pr'', []),
                                                  (''pr_created'', [(''pr_url'', PStr u)])]))"
  proof (cases "fix \<noteq> [] \<and> truthy (dict_get fix ''code_changes'')")
    case False
    then have "w5 = add_comment env key advisory_comment w"
      using run by (auto simp: step6_pr_def)
    then show ?thesis using tr by simp
  next
    case True
    show ?thesis
    proof (cases "dict_get b ''title''")
      case (PStr title)
      obtain calls r where cfb: "create_fix_branch env key title = (calls, r)"
        by (cases "create_fix_branch env key title") auto
      let ?w2 = "?w1\<lparr>git_ref_calls := git_ref_calls ?w1 @ calls\<rparr>"
      have t2: "tracked k ?w2" and s2: "steps_of k ?w2 = steps_of k w @ [(''creating_pr'', [])]"
        using t1 s1 by simp_all
      show ?thesis
      proof (cases r)
        case (Inl e)
        then have "w5 = ?w2"
          using run True PStr cfb by (simp add: step6_pr_def Let_def)
        then show ?thesis using t2 s2 by simp
      next
        case (Inr branch_name)
        then have opr: "open_pull_request env key k ?w2 = (w5, res)"
          using run True PStr cfb by (simp add: step6_pr_def Let_def)
        show ?thesis
          using open_pull_request_log [OF opr t2] s2 by auto
      qed
    qed (use run True t1 s1 in \<open>auto simp: step6_pr_def Let_def\<close>)
  qed
  show "tracked k w5" using both by simp
  show "steps_of k w5 = steps_of k w
         \<or> steps_of k w5 = steps_of k w @ [(''creating_pr'', [])]
         \<or> (\<exists>u. steps_of k w5 = steps_of k w @ [(''creating_pr'', []),
                                                  (''pr_created'', [(''pr_url'', PStr u)])])"
    using both by simp
qed

lemma step6_pr_manual:
  assumes "\<not> truthy (dict_get fix ''code_changes'')"
  shows "step6_pr env b fix key k w = (add_comment env key advisory_comment w, Inr PNone)"
  using assms by (simp add: step6_pr_def)

lemma py_len_zero_falsy:
  "py_len (dict_get_default d key (PList [])) = Inr 0 \<Longrightarrow> \<not> truthy (dict_get d key)"
  by (cases "map_of d key"; cases "the (map_of d key)")
     (auto simp: dict_get_default_def dict_get_def)


lemma workflow_body_success_shape:
  "workflow_body env c k w = (wb, Inr r) \<Longrightarrow>
     \<exists>key pr b. r = success_result env k key pr b"
  by (auto simp: workflow_body_def split: prod.splits sum.splits)

lemma workflow_body_tracked:
  assumes "workflow_body env c k w = (wb, res)"
  shows "tracked k wb"
proof -
  obtain w1 r1 where s1: "step1_parse env c k w = (w1, r1)" by (cases "step1_parse env c k w") auto
  have t1: "tracked k w1" using step1_parse_log(1) [OF s1] .
  show ?thesis
  proof (cases r1)
    case (Inl e)
    then show ?thesis using assms s1 t1 by (simp add: workflow_body_def)
  next
    case b: (Inr b)
    obtain w2 r2 where s3: "step3_context env b k w1 = (w2, r2)"
      by (cases "step3_context env b k w1") auto
    have t2: "tracked k w2" using step3_context_log(1) [OF s3 t1] .
    show ?thesis
    proof (cases r2)
      case (Inl e)
      then show ?thesis using assms s1 b s3 t2 by (simp add: workflow_body_def)
    next
      case ctx: (Inr ctx)
      obtain w3 r3 where s4: "step4_fix env b ctx k w2 = (w3, r3)"
        by (cases "step4_fix env b ctx k w2") auto
      have t3: "tracked k w3" using step4_fix_log(1) [OF s4 t2] .
      show ?thesis
      proof (cases r3)
        case (Inl e)
        then show ?thesis using assms s1 b s3 ctx s4 t3 by (simp add: workflow_body_def)
      next
        case fx: (Inr fx)
        obtain w4 r4 where s5: "step5_ticket env k w3 = (w4, r4)"
          by (cases "step5_ticket env k w3") auto
        have t4: "tracked k w4" using step5_ticket_log(1) [OF s5 t3] .
        show ?thesis
        proof (cases r4)
          case (Inl e)
          then show ?thesis using assms s1 b s3 ctx s4 fx s5 t4 by (simp add: workflow_body_def)
        next
          case key: (Inr key)
          obtain w5 r5 where s6: "step6_pr env b fx key k w4 = (w5, r5)"
            by (cases "step6_pr env b fx key k w4") auto
          have t5: "tracked k w5" using step6_pr_log(1) [OF s6 t4] .
          show ?thesis
            using assms s1 b s3 ctx s4 fx s5 key s6 t5
            by (cases r5) (auto simp: workflow_body_def)
        qed
      qed
    qed
  qed
qed

lemma workflow_body_manual_fix:
  assumes body: "workflow_body env c k w = (wb, res)"
      and ticket: "(''jira_ticket_created'', [(''issue_key'', PStr issue_key)]) \<in> set (steps_of k wb)"
      and nofix: "(''fix_generated'', [(''files_to_change'', PInt 0)]) \<in> set (steps_of k wb)"
  shows "(\<exists>b. res = Inr (success_result env k issue_key PNone b))
       \<and> jira_requests wb = jira_requests w @ [(issue_key, advisory_comment)]
       \<and> status_of k wb = ''completed''
       \<and> last (steps_of k wb) = (''completed'', [])
       \<and> (jira_add_comment env = None \<longrightarrow>
            jira_comments wb = jira_comments w @ [(issue_key, advisory_comment)])"
proof -
  obtain w1 r1 where s1: "step1_parse env c k w = (w1, r1)" by (cases "step1_parse env c k w") auto
  note l1 = step1_parse_log [OF s1]
  show ?thesis
  proof (cases r1)
    case (Inl e)
    then have "wb = w1" using body s1 by (simp add: workflow_body_def)
    then show ?thesis using ticket l1(4) [OF Inl] by simp
  next
    case b: (Inr b)
    note st1 = l1(5) [OF b]
    obtain w2 r2 where s3: "step3_context env b k w1 = (w2, r2)"
      by (cases "step3_context env b k w1") auto
    note l3 = step3_context_log [OF s3 l1(1)]
    show ?thesis
    proof (cases r2)
      case (Inl e)
      then have "wb = w2" using body s1 b s3 by (simp add: workflow_body_def)
      then show ?thesis using ticket l3(4) st1 by simp
    next
      case ctx: (Inr ctx)
      obtain w3 r3 where s4: "step4_fix env b ctx k w2 = (w3, r3)"
        by (cases "step4_fix env b ctx k w2") auto
      note l4 = step4_fix_log [OF s4 l3(1)]
      show ?thesis
      proof (cases r3)
        case (Inl e)
        then have "wb = w3" using body s1 b s3 ctx s4 by (simp add: workflow_body_def)
        then show ?thesis using ticket l4(4) [OF Inl] l3(4) st1 by simp
      next
        case fx: (Inr fx)
        obtain n where n: "py_len (dict_get_default fx ''code_changes'' (PList [])) = Inr n"
          and st4: "steps_of k w3 = steps_of k w2 @ [(''generating_fix'', []),
                   (''fix_generated'', [(''files_to_change'', PInt (int n))])]"
          using l4(5) [OF fx] by blast
        obtain w4 r4 where s5: "step5_ticket env k w3 = (w4, r4)"
          by (cases "step5_ticket env k w3") auto
        note l5 = step5_ticket_log [OF s5 l4(1)]
        show ?thesis
        proof (cases r4)
          case (Inl e)
          then have "wb = w4" using body s1 b s3 ctx s4 fx s5 by (simp add: workflow_body_def)
          then show ?thesis using ticket l5(4) [OF Inl] st4 l3(4) st1 by simp
        next
          case key: (Inr key)
          note st5 = l5(5) [OF key]
          obtain w5 r5 where s6: "step6_pr env b fx key k w4 = (w5, r5)"
            by (cases "step6_pr env b fx key k w4") auto
          note l6 = step6_pr_log [OF s6 l5(1)]
          have wb_cases: "wb = w5 \<or> wb = update_workflow k ''completed'' [] w5"
            using body s1 b s3 ctx s4 fx s5 key s6 by (cases r5) (auto simp: workflow_body_def)
          have pre: "steps_of k w4 =
                       [(''parsing_bug_report'', []),
                        (''bug_report_parsed'', [(''bug_title'', dict_get b ''title'')]),
                        (''analyzing_codebase'', []), (''generating_fix'', []),
                        (''fix_generated'', [(''files_to_change'', PInt (int n))]),
                        (''creating_jira_ticket'', []),
                        (''jira_ticket_created'', [(''issue_key'', PStr key)])]"
            using st5 st4 l3(4) st1 by simp
          have "int n = 0"
            using nofix wb_cases l6 pre by auto
          then have n0: "n = 0" by simp
          have keyeq: "key = issue_key"
            using ticket wb_cases l6 pre by auto
          have falsy: "\<not> truthy (dict_get fx ''code_changes'')"
            using n n0 py_len_zero_falsy by blast
          have s6': "w5 = add_comment env key advisory_comment w4" "r5 = Inr PNone"
            using s6 step6_pr_manual [OF falsy, of env b key k w4] by simp_all
          have wb: "wb = update_workflow k ''completed'' [] w5"
            and res: "res = Inr (success_result env k key PNone b)"
            using body s1 b s3 ctx s4 fx s5 key s6 s6' by (simp_all add: workflow_body_def)
          have t5: "tracked k w5" using l6(1) .
          have jr: "jira_requests wb = jira_requests w @ [(issue_key, advisory_comment)]"
            using wb s6'(1) l5(2) l4(2) l3(2) l1(2) keyeq by simp
          have jc: "jira_add_comment env = None \<Longrightarrow>
                      jira_comments wb = jira_comments w @ [(issue_key, advisory_comment)]"
            using wb s6'(1) l5(3) l4(3) l3(3) l1(3) keyeq by simp
          have shape: "\<exists>b. res = Inr (success_result env k issue_key PNone b)"
            using res keyeq by blast
          show ?thesis
            using shape jr jc wb t5 by simp
        qed
      qed
    qed
  qed
qed


text \<open>
  C6. Take any run whose workflow record shows that the fix proposal had no code changes
  (the step \<open>fix_generated\<close> with 0 files to change) and that the ticket was created
  (the step \<open>jira_ticket_created\<close> with its key). Then \<open>add_comment\<close> was called once,
  with the ticket's key and the advisory text, and Jira has the comment unless its client
  failed; the result has \<open>success\<close> true and \<open>pr_url\<close> None; the workflow ended
  \<open>completed\<close>.
\<close>

theorem empty_code_changes_ends_completed:
  assumes run: "process_slack_conversation env w conversation channel_id thread_ts = (result, w')"
      and ticket: "(''jira_ticket_created'', [(''issue_key'', PStr issue_key)])
                     \<in> set (steps_of (channel_id @ ''_'' @ thread_ts) w')"
      and nofix: "(''fix_generated'', [(''files_to_change'', PInt 0)])
                     \<in> set (steps_of (channel_id @ ''_'' @ thread_ts) w')"
  shows "map_of result ''success'' = Some (PBool True)
       \<and> map_of result ''pr_url'' = Some PNone
       \<and> jira_requests w' = jira_requests w @ [(issue_key, advisory_comment)]
       \<and> (jira_add_comment env = None \<longrightarrow>
            jira_comments w' = jira_comments w @ [(issue_key, advisory_comment)])
       \<and> status_of (channel_id @ ''_'' @ thread_ts) w' = ''completed''
       \<and> last (steps_of (channel_id @ ''_'' @ thread_ts) w') = (''completed'', [])"
proof -
  let ?k = "channel_id @ ''_'' @ thread_ts"
  obtain wb res where body: "workflow_body env conversation ?k w = (wb, res)"
    by (cases "workflow_body env conversation ?k w") auto
  have tr: "tracked ?k wb" using workflow_body_tracked [OF body] .
  show ?thesis
  proof (cases res)
    case (Inl e)
    then have w': "w' = update_workflow ?k ''failed'' [(''error'', PStr (str_exc e))] wb"
      using run body by (simp add: process_slack_conversation_def Let_def)
    have "(''jira_ticket_created'', [(''issue_key'', PStr issue_key)]) \<in> set (steps_of ?k wb)"
      and "(''fix_generated'', [(''files_to_change'', PInt 0)]) \<in> set (steps_of ?k wb)"
      using ticket nofix w' tr by simp_all
    then have "\<exists>b. res = Inr (success_result env ?k issue_key PNone b)"
      using workflow_body_manual_fix [OF body] by blast
    then show ?thesis using Inl by simp
  next
    case (Inr r)
    then have eq: "w' = wb" "result = r"
      using run body by (simp_all add: process_slack_conversation_def Let_def)
    have t: "(''jira_ticket_created'', [(''issue_key'', PStr issue_key)]) \<in> set (steps_of ?k wb)"
      and n: "(''fix_generated'', [(''files_to_change'', PInt 0)]) \<in> set (steps_of ?k wb)"
      using ticket nofix eq by simp_all
    note m = workflow_body_manual_fix [OF body t n]
    obtain b where r: "r = success_result env ?k issue_key PNone b"
      using m Inr by auto
    have "map_of r ''success'' = Some (PBool True)" "map_of r ''pr_url'' = Some PNone"
      unfolding r by (simp_all add: success_result_def)
    then show ?thesis
      using m eq by simp
  qed
qed

text \<open>
  The run of the specification's end-to-end scenario with the language model out of
  reach: the two steps are in the record, and the conclusion holds.
\<close>

theorem empty_code_changes_ends_completed_witness:
  "(''jira_ticket_created'', [(''issue_key'', PStr ''CCS-7'')])
      \<in> set (steps_of (''C1'' @ ''_'' @ ''1.0'')
                (snd (process_slack_conversation offline fresh_world alice ''C1'' ''1.0'')))
   \<and> (''fix_generated'', [(''files_to_change'', PInt 0)])
      \<in> set (steps_of (''C1'' @ ''_'' @ ''1.0'')
                (snd (process_slack_conversation offline fresh_world alice ''C1'' ''1.0'')))
   \<and> map_of (fst (process_slack_conversation offline fresh_world alice ''C1'' ''1.0'')) ''success''
        = Some (PBool True)
   \<and> map_of (fst (process_slack_conversation offline fresh_world alice ''C1'' ''1.0'')) ''pr_url''
        = Some PNone
   \<and> jira_requests (snd (process_slack_conversation offline fresh_world alice ''C1'' ''1.0''))
        = [(''CCS-7'', advisory_comment)]"
proof -
  let ?run = "process_slack_conversation offline fresh_world alice ''C1'' ''1.0''"
  have r: "?run = (fst ?run, snd ?run)" by simp
  have t: "(''jira_ticket_created'', [(''issue_key'', PStr ''CCS-7'')])
             \<in> set (steps_of (''C1'' @ ''_'' @ ''1.0'') (snd ?run))" by code_simp
  have n: "(''fix_generated'', [(''files_to_change'', PInt 0)])
             \<in> set (steps_of (''C1'' @ ''_'' @ ''1.0'') (snd ?run))" by code_simp
  have j: "jira_requests fresh_world = []" by (simp add: fresh_world_def)
  show ?thesis
    using empty_code_changes_ends_completed [OF r t n] t n j by simp
qed

text \<open>
  C5, as the code has it. An exception here is an instance of \<open>Exception\<close>, which
  is what the handler catches; an interrupt of the interpreter is outside the model.
  \<open>process_slack_conversation\<close> always returns a dictionary
  whose \<open>success\<close> is a boolean. It is false exactly when a step raised; then the result
  is \<open>{success, workflow_id, error, message}\<close> with \<open>error\<close> the text \<open>str(e)\<close> of that
  exception as it is, empty when the text is empty, and the workflow record ends with the
  step \<open>failed\<close> carrying the same text.
\<close>

theorem process_slack_conversation_catches:
  "(\<exists>b. map_of (fst (process_slack_conversation env w conversation channel_id thread_ts))
            ''success'' = Some (PBool b))
   \<and> (map_of (fst (process_slack_conversation env w conversation channel_id thread_ts))
            ''success'' = Some (PBool False)
        \<longrightarrow> (\<exists>e. snd (workflow_body env conversation (channel_id @ ''_'' @ thread_ts) w) = Inl e))
   \<and> (snd (workflow_body env conversation (channel_id @ ''_'' @ thread_ts) w) = Inl e
        \<longrightarrow> fst (process_slack_conversation env w conversation channel_id thread_ts)
              = [(''success'', PBool False),
                 (''workflow_id'', PStr (channel_id @ ''_'' @ thread_ts)),
                 (''error'', PStr (str_exc e)),
                 (''message'', PStr (''Failed to process bug report: '' @ str_exc e))]
          \<and> status_of (channel_id @ ''_'' @ thread_ts)
               (snd (process_slack_conversation env w conversation channel_id thread_ts))
              = ''failed''
          \<and> last (steps_of (channel_id @ ''_'' @ thread_ts)
                     (snd (process_slack_conversation env w conversation channel_id thread_ts)))
              = (''failed'', [(''error'', PStr (str_exc e))]))"
proof -
  let ?k = "channel_id @ ''_'' @ thread_ts"
  obtain wb res where body: "workflow_body env conversation ?k w = (wb, res)"
    by (cases "workflow_body env conversation ?k w") auto
  have tr: "tracked ?k wb" using workflow_body_tracked [OF body] .
  show ?thesis
  proof (cases res)
    case (Inl e')
    then show ?thesis
      using body tr by (auto simp: process_slack_conversation_def failure_result_def Let_def)
  next
    case (Inr r)
    then obtain key pr b where "r = success_result env ?k key pr b"
      using workflow_body_success_shape body by blast
    then show ?thesis
      using body Inr by (auto simp: process_slack_conversation_def success_result_def Let_def)
  qed
qed

text \<open>
  C5 as stated fails on the error text: when creating the ticket raises an exception
  whose text is empty, the result's \<open>error\<close> is the empty string.
\<close>

theorem process_slack_conversation_empty_error:
  "fst (process_slack_conversation jira_times_out fresh_world alice ''C1'' ''1.0'') =
     [(''success'', PBool False), (''workflow_id'', PStr ''C1_1.0''),
      (''error'', PStr []), (''message'', PStr ''Failed to process bug report: '')]"
  by code_simp

text \<open>The run in which creating the ticket raises: the exception is caught and recorded.\<close>

theorem process_slack_conversation_catches_witness:
  "snd (workflow_body jira_times_out alice (''C1'' @ ''_'' @ ''1.0'') fresh_world)
     = Inl (PyError ''TimeoutError'' [])
   \<and> map_of (fst (process_slack_conversation jira_times_out fresh_world alice ''C1'' ''1.0''))
        ''success'' = Some (PBool False)
   \<and> status_of (''C1'' @ ''_'' @ ''1.0'')
        (snd (process_slack_conversation jira_times_out fresh_world alice ''C1'' ''1.0''))
      = ''failed''"
proof -
  have b: "snd (workflow_body jira_times_out alice (''C1'' @ ''_'' @ ''1.0'') fresh_world)
             = Inl (PyError ''TimeoutError'' [])" by code_simp
  show ?thesis
    using b process_slack_conversation_catches [of jira_times_out fresh_world alice "''C1''" "''1.0''"
            "PyError ''TimeoutError'' []"]
    by simp
qed

lemma format_messages_total:
  "list_all has_user_and_text c \<Longrightarrow> \<exists>ls. format_messages c = Inr ls"
  by (induction c) (auto simp: has_user_and_text_def format_message_def)

text \<open>
  C2, as the code has it. \<open>parse_bug_report\<close> returns for every conversation whose
  messages have a user and a text. When the call fails or its output is no JSON (no
  braces, or \<open>json.loads\<close> rejects it) the result is the fallback report: the fixed
  title, the first 500 characters of the transcript as description, severity Medium;
  and the orchestrator goes on. When the output is a JSON object, that object is the
  result as it is; if it has no title, or an empty one, the orchestrator's own check
  raises and the workflow ends failed with the parse-failure text.
\<close>

theorem parse_bug_report_fallback:
  "(list_all has_user_and_text conversation
      \<longrightarrow> (\<exists>r. parse_bug_report env conversation = Inr r))
   \<and> (format_conversation conversation = Inr transcript \<longrightarrow>
        (llm_report env = Inl e \<longrightarrow> llm_json env (llm_report env) = None)
      \<and> (llm_json env (llm_report env) = None \<longrightarrow>
            parse_bug_report env conversation = Inr (fallback_report transcript)
          \<and> dict_get (fallback_report transcript) ''title'' = PStr ''Bug Report from Slack''
          \<and> dict_get (fallback_report transcript) ''description'' = PStr (take 500 transcript)
          \<and> dict_get (fallback_report transcript) ''severity'' = PStr ''Medium''
          \<and> snd (step1_parse env conversation (channel_id @ ''_'' @ thread_ts) w)
               = Inr (fallback_report transcript))
      \<and> (llm_json env (llm_report env) = Some r \<longrightarrow>
            parse_bug_report env conversation = Inr r
          \<and> (\<not> truthy (dict_get r ''title'') \<longrightarrow>
                fst (process_slack_conversation env w conversation channel_id thread_ts)
                  = failure_result (channel_id @ ''_'' @ thread_ts) parse_failure)))"
proof (intro conjI impI)
  assume "list_all has_user_and_text conversation"
  then obtain ls where "format_messages conversation = Inr ls"
    using format_messages_total by blast
  then show "\<exists>r. parse_bug_report env conversation = Inr r"
    by (simp add: parse_bug_report_def format_conversation_def split: option.splits)
next
  assume "llm_report env = Inl e"
  then show "llm_json env (llm_report env) = None" by (simp add: llm_json_def)
next
  assume f: "format_conversation conversation = Inr transcript"
     and n: "llm_json env (llm_report env) = None"
  show "parse_bug_report env conversation = Inr (fallback_report transcript)"
    using f n by (simp add: parse_bug_report_def)
  show "dict_get (fallback_report transcript) ''title'' = PStr ''Bug Report from Slack''"
    by (simp add: fallback_report_def dict_get_def)
  show "dict_get (fallback_report transcript) ''description'' = PStr (take 500 transcript)"
    by (simp add: fallback_report_def dict_get_def)
  show "dict_get (fallback_report transcript) ''severity'' = PStr ''Medium''"
    by (simp add: fallback_report_def dict_get_def)
  show "snd (step1_parse env conversation (channel_id @ ''_'' @ thread_ts) w)
          = Inr (fallback_report transcript)"
    using f n
    by (simp add: step1_parse_def parse_bug_report_def Let_def fallback_report_def dict_get_def)
next
  assume f: "format_conversation conversation = Inr transcript"
     and s: "llm_json env (llm_report env) = Some r"
  show "parse_bug_report env conversation = Inr r"
    using f s by (simp add: parse_bug_report_def)
next
  assume f: "format_conversation conversation = Inr transcript"
     and s: "llm_json env (llm_report env) = Some r"
     and t: "\<not> truthy (dict_get r ''title'')"
  show "fst (process_slack_conversation env w conversation channel_id thread_ts)
          = failure_result (channel_id @ ''_'' @ thread_ts) parse_failure"
    using f s t
    by (simp add: process_slack_conversation_def workflow_body_def step1_parse_def
                  parse_bug_report_def Let_def)
qed

text \<open>
  C2 as stated fails for an output without a title: when the language model answers
  \<open>{}\<close>, \<open>parse_bug_report\<close> returns the empty dictionary, not the fallback report, and
  the workflow ends failed at this step.
\<close>

theorem parse_bug_report_keeps_titleless_output:
  "parse_bug_report empty_answer alice = Inr []
   \<and> fst (process_slack_conversation empty_answer fresh_world alice ''C1'' ''1.0'') =
       [(''success'', PBool False), (''workflow_id'', PStr ''C1_1.0''),
        (''error'', PStr ''Failed to parse bug report from conversation''),
        (''message'',
         PStr ''Failed to process bug report: Failed to parse bug report from conversation'')]"
  by code_simp

text \<open>The scenario's conversation with the language model out of reach: the fallback
  report is returned.\<close>

theorem parse_bug_report_fallback_witness:
  "list_all has_user_and_text alice
   \<and> format_conversation alice = Inr ''alice: Login button does nothing on click''
   \<and> llm_json offline (llm_report offline) = None
   \<and> parse_bug_report offline alice
       = Inr (fallback_report ''alice: Login button does nothing on click'')
   \<and> dict_get (fallback_report ''alice: Login button does nothing on click'') ''title''
       = PStr ''Bug Report from Slack''"
proof -
  have a: "list_all has_user_and_text alice" by code_simp
  have f: "format_conversation alice = Inr ''alice: Login button does nothing on click''"
    by code_simp
  have n: "llm_json offline (llm_report offline) = None" by code_simp
  show ?thesis
    using a f n
      parse_bug_report_fallback [of alice offline "''alice: Login button does nothing on click''"
        "PyError ''APIConnectionError'' ''Connection error.''" "''C1''" "''1.0''" fresh_world "[]"]
    by simp
qed

end
